theory Spec2Isabelle
  imports Complex_Main
begin

section \<open>Python values shared by the wrappers\<close>

text \<open>
  The scripts under \<open>docs/claude-headless\<close> and \<open>docs/codex-headless\<close> launch a
  command-line agent, read JSON from its standard output and keep a conversation
  identifier in a small file. The model makes the three things the scripts do not own
  explicit:
  \<^item> the subprocess is a parameter \<open>cli\<close>: the number of launches tried so far and the
    argument list give the outcome of \<open>subprocess.run\<close> / \<open>subprocess.Popen\<close>;
  \<^item> \<open>json.loads\<close> is a parameter \<open>loads\<close>: \<open>Inl e\<close> is the exception it raises, a
    \<open>JSONDecodeError\<close> or any other (\<open>RecursionError\<close> on deeply nested text,
    \<open>ValueError\<close> on an integer with too many digits), and \<open>Inr v\<close> the value it returns;
  \<^item> Python's numbers (\<open>int\<close> and \<open>float\<close>) are a type \<open>'n\<close> of which only \<open>0\<close>,
    \<open>1\<close> and \<open>+\<close> are used; no law of arithmetic is assumed of them, so a statement
    proved here also holds of floating-point addition. The model writes \<open>0\<close> for both
    the \<open>int\<close> \<open>0\<close> and the \<open>float\<close> \<open>0.0\<close>.
  Every \<open>raise\<close> of the source is a value \<open>Inl e\<close>. The dataclasses \<open>Turn\<close> and
  \<open>Session\<close> are records with the field types the source annotates; \<open>IllTyped\<close> is
  not an exception of Python: it marks the one place (\<open>Session.from_dict\<close>) where a JSON
  value of another type than the annotation would enter such a field, which Python stores
  unchecked and the model leaves outside its data model.
\<close>

datatype error =
    RuntimeError string
  | JSONDecodeError string
  | RecursionError
  | OSError
  | KeyError string
  | TypeError
  | AttributeError
  | ValueError
  | IllTyped

text \<open>The outcome of one launch: the process ran and exited, or it could not be started.\<close>

datatype proc = Exited (returncode: int) (stdout: string) (stderr: string) | NotLaunched

type_synonym cli = "nat \<Rightarrow> string list \<Rightarrow> proc"

text \<open>
  \<open>str.strip()\<close>: Python strips the characters for which \<open>str.isspace\<close> holds. A \<open>char\<close>
  stands for a code point below 256.
\<close>

definition py_isspace :: "char \<Rightarrow> bool" where
  "py_isspace c = ((of_char c :: nat) \<in> {9, 10, 11, 12, 13, 28, 29, 30, 31, 32, 133, 160})"

definition strip :: "string \<Rightarrow> string" where
  "strip s = rev (dropWhile py_isspace (rev (dropWhile py_isspace s)))"

text \<open>\<open>sep.join(xs)\<close> on a list of strings.\<close>

fun join :: "string \<Rightarrow> string list \<Rightarrow> string" where
  "join sep [] = []"
| "join sep [x] = x"
| "join sep (x # y # ys) = x @ sep @ join sep (y # ys)"

text \<open>Truthiness of an \<open>Optional[str]\<close> and of an \<open>Optional[List[str]]\<close>.\<close>

definition truthy :: "'a list option \<Rightarrow> bool" where
  "truthy v = (case v of None \<Rightarrow> False | Some xs \<Rightarrow> xs \<noteq> [])"

text \<open>
  The single JSON object the CLI prints in batch mode (\<open>--output-format json\<close>). Its fields,
  when present, have the types that the \<open>Result\<close> dataclasses declare for them; an absent
  key is \<open>None\<close>, so that \<open>data.get(k, d)\<close> is a \<open>case\<close> with default \<open>d\<close> and \<open>data[k]\<close>
  raises \<open>KeyError\<close>. Decoding the standard output of a batch run is the parameter
  \<open>loads\<close> of the batch functions: \<open>Inr\<close> is the object and \<open>Inl e\<close> the exception that
  \<open>json.loads\<close> raises or, when the output is valid JSON but not an object, the one that
  the first access to the value raises (\<open>AttributeError\<close> for \<open>data.get\<close>, \<open>TypeError\<close> for
  \<open>data["session_id"]\<close>). In each batch function the exception leaves the function from
  the same state.
\<close>

record 'n batch_json =
  j_result :: "string option"
  j_total_cost_usd :: "'n option"
  j_duration_ms :: "'n option"
  j_session_id :: "string option"
  j_is_error :: "bool option"
  j_num_turns :: "'n option"

definition get_or :: "'a option \<Rightarrow> 'a \<Rightarrow> 'a" where
  "get_or v d = (case v of None \<Rightarrow> d | Some x \<Rightarrow> x)"

type_synonym 'n batch_loads = "string \<Rightarrow> error + 'n batch_json"

section \<open>templates/python-wrapper.py: ClaudeWrapper\<close>

record 'n Result =
  r_text :: string
  r_cost_usd :: 'n
  r_duration_ms :: 'n
  r_session_id :: string
  r_is_error :: bool

text \<open>
  The wrapper object together with the part of the world it touches: \<open>cw_file\<close> is the
  content of the file at \<open>self.session_file\<close> (\<open>None\<close> when it does not exist) and
  \<open>cw_launched\<close> lists the commands it has tried to launch so far.
\<close>

record cw_state =
  cw_file :: "string option"
  cw_permission_mode :: string
  cw_allowed_tools :: "string list option"
  cw_session_id :: "string option"
  cw_launched :: "string list list"

definition cw_execute ::
  "cli \<Rightarrow> 'n::zero batch_loads \<Rightarrow> string \<Rightarrow> cw_state \<Rightarrow> (error + 'n Result) \<times> cw_state" where
  "cw_execute cli loads prompt st =
     (let cmd = [''claude'', ''-p'', ''--output-format'', ''json'',
                 ''--permission-mode'', cw_permission_mode st]
                @ (if truthy (cw_session_id st) then [''--resume'', the (cw_session_id st)] else [])
                @ (if truthy (cw_allowed_tools st)
                   then [''--allowedTools'', join '','' (the (cw_allowed_tools st))] else [])
                @ [prompt];
          st' = st\<lparr>cw_launched := cw_launched st @ [cmd]\<rparr>
      in case cli (length (cw_launched st)) cmd of
           NotLaunched \<Rightarrow> (Inl OSError, st')
         | Exited rc out err \<Rightarrow>
             (case loads out of
                Inl e \<Rightarrow> (Inl e, st')
              | Inr data \<Rightarrow>
                  (Inr \<lparr>r_text = get_or (j_result data) [],
                        r_cost_usd = get_or (j_total_cost_usd data) 0,
                        r_duration_ms = get_or (j_duration_ms data) 0,
                        r_session_id = get_or (j_session_id data) [],
                        r_is_error = get_or (j_is_error data) False\<rparr>, st')))"

text \<open>The property \<open>session_id\<close>: the cached identifier, else the file, else a first run.\<close>

definition cw_session_id_prop ::
  "cli \<Rightarrow> 'n::zero batch_loads \<Rightarrow> cw_state \<Rightarrow> (error + string) \<times> cw_state" where
  "cw_session_id_prop cli loads st =
     (if truthy (cw_session_id st) then (Inr (the (cw_session_id st)), st)
      else case cw_file st of
        Some content \<Rightarrow>
          (Inr (strip content), st\<lparr>cw_session_id := Some (strip content)\<rparr>)
      | None \<Rightarrow>
          (case cw_execute cli loads ''Initialize'' st of
             (Inl e, st') \<Rightarrow> (Inl e, st')
           | (Inr result, st') \<Rightarrow>
               (Inr (r_session_id result),
                st'\<lparr>cw_session_id := Some (r_session_id result),
                    cw_file := Some (r_session_id result)\<rparr>)))"

definition cw_run ::
  "cli \<Rightarrow> 'n::zero batch_loads \<Rightarrow> string \<Rightarrow> cw_state \<Rightarrow> (error + 'n Result) \<times> cw_state" where
  "cw_run cli loads prompt st =
     (case cw_session_id_prop cli loads st of
        (Inl e, st') \<Rightarrow> (Inl e, st')
      | (Inr _, st') \<Rightarrow> cw_execute cli loads prompt st')"


section \<open>examples/basic/agent.py: ClaudeAgent (batch mode)\<close>

record 'n AgentResult =
  ar_text :: string
  ar_cost_usd :: 'n
  ar_duration_ms :: 'n
  ar_session_id :: string
  ar_is_error :: bool
  ar_num_turns :: 'n
  ar_raw_output :: "'n batch_json"

record ca_state =
  ca_file :: "string option"
  ca_mcp_config :: "string option"
  ca_permission_mode :: string
  ca_allowed_tools :: "string list option"
  ca_disallowed_tools :: "string list option"
  ca_system_prompt :: "string option"
  ca_max_turns :: "int option"
  ca_session_id :: "string option"
  ca_launched :: "string list list"

text \<open>\<open>str(n)\<close> for an \<open>int\<close>.\<close>

function show_nat :: "nat \<Rightarrow> string" where
  "show_nat n =
     (if n < 10 then [char_of (48 + n)]
      else show_nat (n div 10) @ [char_of (48 + n mod 10)])"
  by pat_completeness auto
termination
  by (relation "measure id") auto

definition str_int :: "int \<Rightarrow> string" where
  "str_int i = (if i < 0 then ''-'' @ show_nat (nat (- i)) else show_nat (nat i))"

text \<open>
  The property \<open>session_id\<close> calls \<open>_run_once\<close>, which calls \<open>_build_command\<close>, which reads
  the property \<open>session_id\<close> again. The first argument of the three functions is the
  number of call frames the interpreter still allows: each call takes one, and a call with
  none left raises \<open>RecursionError\<close>.
\<close>

fun ca_session_id_prop ::
      "nat \<Rightarrow> cli \<Rightarrow> 'n::zero batch_loads \<Rightarrow> ca_state \<Rightarrow> (error + string) \<times> ca_state"
  and ca_build_command ::
      "nat \<Rightarrow> cli \<Rightarrow> 'n::zero batch_loads \<Rightarrow> string \<Rightarrow> bool \<Rightarrow> ca_state
        \<Rightarrow> (error + string list) \<times> ca_state"
  and ca_run_once ::
      "nat \<Rightarrow> cli \<Rightarrow> 'n::zero batch_loads \<Rightarrow> string \<Rightarrow> ca_state
        \<Rightarrow> (error + 'n AgentResult) \<times> ca_state"
where
  "ca_session_id_prop 0 cli loads st = (Inl RecursionError, st)"
| "ca_session_id_prop (Suc d) cli loads st =
     (if truthy (ca_session_id st) then (Inr (the (ca_session_id st)), st)
      else case ca_file st of
        Some content \<Rightarrow>
          (Inr (strip content), st\<lparr>ca_session_id := Some (strip content)\<rparr>)
      | None \<Rightarrow>
          (case ca_run_once d cli loads ''Initialize agent session'' st of
             (Inl e, st') \<Rightarrow> (Inl e, st')
           | (Inr result, st') \<Rightarrow>
               (Inr (ar_session_id result),
                st'\<lparr>ca_session_id := Some (ar_session_id result),
                    ca_file := Some (ar_session_id result)\<rparr>)))"
| "ca_build_command 0 cli loads prompt stream st = (Inl RecursionError, st)"
| "ca_build_command (Suc d) cli loads prompt stream st =
     (case ca_session_id_prop d cli loads st of
        (Inl e, st') \<Rightarrow> (Inl e, st')
      | (Inr sid, st') \<Rightarrow>
          (Inr ([''claude'', ''-p'', ''--output-format'',
                 (if stream then ''stream-json'' else ''json''),
                 ''--permission-mode'', ca_permission_mode st', ''--resume'', sid]
                @ (case ca_mcp_config st' of
                     None \<Rightarrow> [] | Some path \<Rightarrow> [''--mcp-config'', path])
                @ (if truthy (ca_allowed_tools st')
                   then [''--allowedTools'', join '','' (the (ca_allowed_tools st'))] else [])
                @ (if truthy (ca_disallowed_tools st')
                   then [''--disallowedTools'', join '','' (the (ca_disallowed_tools st'))]
                   else [])
                @ (if truthy (ca_system_prompt st')
                   then [''--append-system-prompt'', the (ca_system_prompt st')] else [])
                @ (case ca_max_turns st' of
                     None \<Rightarrow> []
                   | Some m \<Rightarrow> if m \<noteq> 0 then [''--max-turns'', str_int m] else [])
                @ [prompt]), st'))"
| "ca_run_once 0 cli loads prompt st = (Inl RecursionError, st)"
| "ca_run_once (Suc d) cli loads prompt st =
     (case ca_build_command d cli loads prompt False st of
        (Inl e, st') \<Rightarrow> (Inl e, st')
      | (Inr cmd, st') \<Rightarrow>
          (let st'' = st'\<lparr>ca_launched := ca_launched st' @ [cmd]\<rparr> in
           case cli (length (ca_launched st')) cmd of
             NotLaunched \<Rightarrow> (Inl OSError, st'')
           | Exited rc out err \<Rightarrow>
               (if rc \<noteq> 0 then (Inl (RuntimeError (''Claude CLI failed: '' @ err)), st'')
                   else case loads out of
                     Inl e \<Rightarrow> (Inl e, st'')
                   | Inr data \<Rightarrow>
                       (Inr \<lparr>ar_text = get_or (j_result data) [],
                             ar_cost_usd = get_or (j_total_cost_usd data) 0,
                             ar_duration_ms = get_or (j_duration_ms data) 0,
                             ar_session_id = get_or (j_session_id data) [],
                             ar_is_error = get_or (j_is_error data) False,
                             ar_num_turns = get_or (j_num_turns data) 0,
                             ar_raw_output = data\<rparr>, st''))))"


text \<open>\<open>run(prompt)\<close> without a callback is the batch mode: it returns \<open>_run_once(prompt)\<close>.\<close>

definition ca_run_batch ::
  "nat \<Rightarrow> cli \<Rightarrow> 'n::zero batch_loads \<Rightarrow> string \<Rightarrow> ca_state
    \<Rightarrow> (error + 'n AgentResult) \<times> ca_state" where
  "ca_run_batch d cli loads prompt st =
     (case d of 0 \<Rightarrow> (Inl RecursionError, st) | Suc d' \<Rightarrow> ca_run_once d' cli loads prompt st)"

section \<open>JSON values of the streaming protocol\<close>

text \<open>
  A value returned by \<open>json.loads\<close> on one line of \<open>stream-json\<close> output. An object keeps
  its keys in an association list. The functions below are the operations of Python the
  parsers apply to such values, with the exceptions Python raises.
\<close>

datatype 'n json =
    JNull
  | JBool bool
  | JNum 'n
  | JStr string
  | JArr "'n json list"
  | JObj "(string \<times> 'n json) list"

type_synonym 'n loads = "string \<Rightarrow> error + 'n json"

text \<open>\<open>d.get(k, default)\<close>: only a \<open>dict\<close> has the method.\<close>

fun py_get :: "'n json \<Rightarrow> string \<Rightarrow> 'n json \<Rightarrow> error + 'n json" where
  "py_get (JObj kvs) k d = Inr (case map_of kvs k of None \<Rightarrow> d | Some v \<Rightarrow> v)"
| "py_get _ k d = Inl AttributeError"

text \<open>\<open>for x in v\<close>: a list gives its items, a string its characters, a \<open>dict\<close> its keys.\<close>

fun py_iter :: "'n json \<Rightarrow> error + 'n json list" where
  "py_iter (JArr xs) = Inr xs"
| "py_iter (JStr s) = Inr (map (\<lambda>c. JStr [c]) s)"
| "py_iter (JObj kvs) = Inr (map JStr (remdups (map fst kvs)))"
| "py_iter _ = Inl TypeError"

text \<open>Truthiness, as \<open>if v:\<close> tests it.\<close>

fun py_truth :: "'n::zero json \<Rightarrow> bool" where
  "py_truth JNull = False"
| "py_truth (JBool b) = b"
| "py_truth (JNum n) = (n \<noteq> 0)"
| "py_truth (JStr s) = (s \<noteq> [])"
| "py_truth (JArr xs) = (xs \<noteq> [])"
| "py_truth (JObj kvs) = (kvs \<noteq> [])"

text \<open>\<open>a + b\<close>: numbers add (a \<open>bool\<close> counts as \<open>0\<close> or \<open>1\<close>), strings and lists concatenate.\<close>

definition num_of_bool :: "bool \<Rightarrow> 'n::{zero,one}" where
  "num_of_bool b = (if b then 1 else 0)"

fun py_add :: "'n::{zero,one,plus} json \<Rightarrow> 'n json \<Rightarrow> error + 'n json" where
  "py_add (JNum a) (JNum b) = Inr (JNum (a + b))"
| "py_add (JNum a) (JBool b) = Inr (JNum (a + num_of_bool b))"
| "py_add (JBool a) (JNum b) = Inr (JNum (num_of_bool a + b))"
| "py_add (JBool a) (JBool b) = Inr (JNum (num_of_bool a + num_of_bool b))"
| "py_add (JStr a) (JStr b) = Inr (JStr (a @ b))"
| "py_add (JArr a) (JArr b) = Inr (JArr (a @ b))"
| "py_add _ _ = Inl TypeError"

text \<open>\<open>"".join(xs)\<close> on a list of values: every item must be a string.\<close>

fun join_values :: "'n json list \<Rightarrow> error + string" where
  "join_values [] = Inr []"
| "join_values (JStr s # xs) =
     (case join_values xs of Inl e \<Rightarrow> Inl e | Inr r \<Rightarrow> Inr (s @ r))"
| "join_values (_ # xs) = Inl TypeError"

section \<open>claude-headless/examples/streaming/stream-parser.py\<close>

datatype EventType = INIT | TEXT | TOOL_USE | TOOL_RESULT | THINKING | RESULT | ERROR

record 'n Event =
  ev_type :: EventType
  ev_data :: "'n json"
  ev_raw :: "'n json"

record 'n StreamStats =
  text_chunks :: nat
  tool_uses :: nat
  total_tokens :: "'n json"
  cost_usd :: "'n json"
  duration_ms :: "'n json"
  session_id :: "'n json"
  is_error :: "'n json"

text \<open>
  A callback is an optional attribute of the parser. The model records whether each one
  is registered and appends every call, with its arguments, to \<open>calls\<close>.
\<close>

datatype 'n callback =
    OnText "'n json"
  | OnToolUse "'n json" "'n json"
  | OnToolResult "'n json" "'n json"
  | OnThinking "'n json"
  | OnError "'n json"

record 'n StreamParser =
  stats :: "'n StreamStats"
  on_text :: bool
  on_tool_use :: bool
  on_tool_result :: bool
  on_thinking :: bool
  on_error :: bool
  calls :: "'n callback list"

definition new_StreamStats :: "'n::zero StreamStats" where
  "new_StreamStats =
     \<lparr>text_chunks = 0, tool_uses = 0, total_tokens = JNum 0, cost_usd = JNum 0,
      duration_ms = JNum 0, session_id = JStr [], is_error = JBool False\<rparr>"

definition new_StreamParser :: "'n::zero StreamParser" where
  "new_StreamParser =
     \<lparr>stats = new_StreamStats, on_text = False, on_tool_use = False, on_tool_result = False,
      on_thinking = False, on_error = False, calls = []\<rparr>"

definition fire :: "bool \<Rightarrow> 'n callback \<Rightarrow> 'n StreamParser \<Rightarrow> 'n StreamParser" where
  "fire registered c p = (if registered then p\<lparr>calls := calls p @ [c]\<rparr> else p)"

text \<open>
  The loop \<open>for block in message.get("content", [])\<close> of \<open>parse_line\<close>. A \<open>return\<close> inside
  the loop ends it; when the loop finishes, control reaches the final \<open>return None\<close>.
\<close>

fun parse_blocks ::
  "'n::zero StreamParser \<Rightarrow> 'n json \<Rightarrow> 'n json list
    \<Rightarrow> (error + 'n Event option) \<times> 'n StreamParser" where
  "parse_blocks p data [] = (Inr None, p)"
| "parse_blocks p data (block # rest) =
     (case py_get block ''type'' (JStr []) of
        Inl e \<Rightarrow> (Inl e, p)
      | Inr block_type \<Rightarrow>
          if block_type = JStr ''text'' then
            (case py_get block ''text'' (JStr []) of
               Inl e \<Rightarrow> (Inl e, p)
             | Inr text \<Rightarrow>
                 if py_truth text then
                   (Inr (Some \<lparr>ev_type = TEXT, ev_data = text, ev_raw = data\<rparr>),
                    fire (on_text p) (OnText text)
                      (p\<lparr>stats := (stats p)\<lparr>text_chunks := text_chunks (stats p) + 1\<rparr>\<rparr>))
                 else parse_blocks p data rest)
          else if block_type = JStr ''tool_use'' then
            (case py_get block ''name'' (JStr ''unknown'') of
               Inl e \<Rightarrow> (Inl e, p)
             | Inr tool_name \<Rightarrow>
                 (case py_get block ''input'' (JObj []) of
                    Inl e \<Rightarrow> (Inl e, p)
                  | Inr tool_input \<Rightarrow>
                      (Inr (Some \<lparr>ev_type = TOOL_USE,
                                  ev_data = JObj [(''name'', tool_name), (''input'', tool_input)],
                                  ev_raw = data\<rparr>),
                       fire (on_tool_use p) (OnToolUse tool_name tool_input)
                         (p\<lparr>stats := (stats p)\<lparr>tool_uses := tool_uses (stats p) + 1\<rparr>\<rparr>))))
          else if block_type = JStr ''tool_result'' then
            (case py_get block ''name'' (JStr ''unknown'') of
               Inl e \<Rightarrow> (Inl e, p)
             | Inr tool_name \<Rightarrow>
                 (case py_get block ''content'' (JStr []) of
                    Inl e \<Rightarrow> (Inl e, p)
                  | Inr result \<Rightarrow>
                      (Inr (Some \<lparr>ev_type = TOOL_RESULT,
                                  ev_data = JObj [(''name'', tool_name), (''result'', result)],
                                  ev_raw = data\<rparr>),
                       fire (on_tool_result p) (OnToolResult tool_name result) p)))
          else if block_type = JStr ''thinking'' then
            (case py_get block ''thinking'' (JStr []) of
               Inl e \<Rightarrow> (Inl e, p)
             | Inr thinking \<Rightarrow>
                 (Inr (Some \<lparr>ev_type = THINKING, ev_data = thinking, ev_raw = data\<rparr>),
                  fire (py_truth thinking \<and> on_thinking p) (OnThinking thinking) p))
          else parse_blocks p data rest)"

text \<open>The branch \<open>msg_type == "result"\<close> of \<open>parse_line\<close>.\<close>

definition parse_result ::
  "'n::{zero,one,plus} StreamParser \<Rightarrow> 'n json
    \<Rightarrow> (error + 'n Event option) \<times> 'n StreamParser" where
  "parse_result p data =
     (case py_get data ''total_cost_usd'' (JNum 0) of
        Inl e \<Rightarrow> (Inl e, p)
      | Inr cost \<Rightarrow>
     (let p1 = p\<lparr>stats := (stats p)\<lparr>cost_usd := cost\<rparr>\<rparr> in
      case py_get data ''duration_ms'' (JNum 0) of
        Inl e \<Rightarrow> (Inl e, p1)
      | Inr duration \<Rightarrow>
     (let p2 = p1\<lparr>stats := (stats p1)\<lparr>duration_ms := duration\<rparr>\<rparr> in
      case py_get data ''is_error'' (JBool False) of
        Inl e \<Rightarrow> (Inl e, p2)
      | Inr err \<Rightarrow>
     (let p3 = p2\<lparr>stats := (stats p2)\<lparr>is_error := err\<rparr>\<rparr> in
      case py_get data ''usage'' (JObj []) of
        Inl e \<Rightarrow> (Inl e, p3)
      | Inr usage \<Rightarrow>
     (case py_get usage ''input_tokens'' (JNum 0) of
        Inl e \<Rightarrow> (Inl e, p3)
      | Inr input_tokens \<Rightarrow>
     (case py_get usage ''output_tokens'' (JNum 0) of
        Inl e \<Rightarrow> (Inl e, p3)
      | Inr output_tokens \<Rightarrow>
     (case py_add input_tokens output_tokens of
        Inl e \<Rightarrow> (Inl e, p3)
      | Inr tokens \<Rightarrow>
     (let p4 = p3\<lparr>stats := (stats p3)\<lparr>total_tokens := tokens\<rparr>\<rparr> in
      case py_get data ''result'' (JStr ''Unknown error'') of
        Inl e \<Rightarrow> (Inl e, p4)
      | Inr message \<Rightarrow>
          (Inr (Some \<lparr>ev_type = RESULT, ev_data = data, ev_raw = data\<rparr>),
           fire (py_truth (is_error (stats p4)) \<and> on_error p4) (OnError message) p4)))))))))"

text \<open>
  \<open>parse_line\<close>: the result is the returned \<open>Optional[Event]\<close> or the exception raised,
  with the parser as the call leaves it. The \<open>except\<close> clause names
  \<open>json.JSONDecodeError\<close> only: any other exception of \<open>json.loads\<close> leaves the function.
\<close>

definition parse_line ::
  "'n::{zero,one,plus} loads \<Rightarrow> 'n StreamParser \<Rightarrow> string
    \<Rightarrow> (error + 'n Event option) \<times> 'n StreamParser" where
  "parse_line loads p line0 =
     (let line = strip line0 in
      if line = [] then (Inr None, p)
      else case loads line of
        Inl e \<Rightarrow>
          (case e of
             JSONDecodeError msg \<Rightarrow>
               (Inr (Some \<lparr>ev_type = ERROR, ev_data = JStr (''JSON parse error: '' @ msg),
                           ev_raw = JObj []\<rparr>), p)
           | _ \<Rightarrow> (Inl e, p))
      | Inr data \<Rightarrow>
          (case py_get data ''type'' (JStr []) of
             Inl e \<Rightarrow> (Inl e, p)
           | Inr msg_type \<Rightarrow>
               if msg_type = JStr ''init'' then
                 (case py_get data ''session_id'' (JStr []) of
                    Inl e \<Rightarrow> (Inl e, p)
                  | Inr sid \<Rightarrow>
                      (Inr (Some \<lparr>ev_type = INIT, ev_data = data, ev_raw = data\<rparr>),
                       p\<lparr>stats := (stats p)\<lparr>session_id := sid\<rparr>\<rparr>))
               else if msg_type = JStr ''assistant'' then
                 (case py_get data ''message'' (JObj []) of
                    Inl e \<Rightarrow> (Inl e, p)
                  | Inr message \<Rightarrow>
                      (case py_get message ''content'' (JArr []) of
                         Inl e \<Rightarrow> (Inl e, p)
                       | Inr content \<Rightarrow>
                           (case py_iter content of
                              Inl e \<Rightarrow> (Inl e, p)
                            | Inr blocks \<Rightarrow> parse_blocks p data blocks)))
               else if msg_type = JStr ''result'' then parse_result p data
               else (Inr None, p)))"

text \<open>
  \<open>parse_stream\<close> yields the event of every line whose \<open>parse_line\<close> is not \<open>None\<close>. The
  model returns the events yielded, the exception that ended the generator (if any) and the
  parser.
\<close>

fun parse_stream ::
  "'n::{zero,one,plus} loads \<Rightarrow> 'n StreamParser \<Rightarrow> string list
    \<Rightarrow> 'n Event list \<times> error option \<times> 'n StreamParser" where
  "parse_stream loads p [] = ([], None, p)"
| "parse_stream loads p (line # rest) =
     (case parse_line loads p line of
        (Inl e, p') \<Rightarrow> ([], Some e, p')
      | (Inr event, p') \<Rightarrow>
          (case parse_stream loads p' rest of
             (events, err, p'') \<Rightarrow>
               ((case event of None \<Rightarrow> events | Some ev \<Rightarrow> ev # events), err, p'')))"

text \<open>
  The quiet mode of \<open>main\<close> accumulates the text: it appends \<open>event.data\<close> of every
  \<open>TEXT\<close> event to \<open>collected_text\<close> and prints \<open>"".join(collected_text)\<close>.
\<close>

definition collected_text :: "'n Event list \<Rightarrow> 'n json list" where
  "collected_text events = map ev_data (filter (\<lambda>ev. ev_type ev = TEXT) events)"

definition accumulated_text :: "'n Event list \<Rightarrow> error + string" where
  "accumulated_text events = join_values (collected_text events)"

section \<open>codex-headless/examples/streaming/stream-parser.py\<close>

datatype CodexEventType =
  THREAD_STARTED | ITEM_COMPLETED | TURN_COMPLETED | TURN_FAILED | CODEX_ERROR

record 'n CodexEvent =
  cev_type :: CodexEventType
  cev_data :: "'n json"
  cev_raw :: "'n json"

record 'n Stats =
  cx_text_chunks :: nat
  cx_tool_uses :: nat
  cx_total_tokens :: "'n json"
  cx_duration_ms :: "'n json"
  cx_thread_id :: "'n json"
  cx_is_error :: bool

datatype 'n codex_callback = CxOnText "'n json" | CxOnTool string | CxOnError string

record 'n CodexParser =
  cx_stats :: "'n Stats"
  cx_on_text :: bool
  cx_on_tool :: bool
  cx_on_error :: bool
  cx_calls :: "'n codex_callback list"

definition new_CodexParser :: "'n::zero CodexParser" where
  "new_CodexParser =
     \<lparr>cx_stats = \<lparr>cx_text_chunks = 0, cx_tool_uses = 0, cx_total_tokens = JNum 0,
                 cx_duration_ms = JNum 0, cx_thread_id = JStr [], cx_is_error = False\<rparr>,
      cx_on_text = False, cx_on_tool = False, cx_on_error = False, cx_calls = []\<rparr>"

definition cx_fire ::
  "bool \<Rightarrow> 'n codex_callback \<Rightarrow> 'n CodexParser \<Rightarrow> 'n CodexParser" where
  "cx_fire registered c p = (if registered then p\<lparr>cx_calls := cx_calls p @ [c]\<rparr> else p)"

text \<open>\<open>a or b\<close> on values: \<open>a\<close> when it is truthy, else \<open>b\<close>.\<close>

definition py_or :: "'n::zero json \<Rightarrow> 'n json \<Rightarrow> 'n json" where
  "py_or a b = (if py_truth a then a else b)"

text \<open>
  The codex \<open>parse_line\<close>. \<open>str_of\<close> is Python's \<open>str()\<close> on a value.
\<close>

definition cx_item_completed ::
  "('n json \<Rightarrow> string) \<Rightarrow> 'n::{zero,one,plus} CodexParser \<Rightarrow> 'n json
    \<Rightarrow> (error + 'n CodexEvent option) \<times> 'n CodexParser" where
  "cx_item_completed str_of p data =
     (case py_get data ''item'' (JObj []) of
        Inl e \<Rightarrow> (Inl e, p)
      | Inr item \<Rightarrow>
     (case py_get item ''type'' JNull of
        Inl e \<Rightarrow> (Inl e, p)
      | Inr item_type \<Rightarrow>
          if item_type = JStr ''agent_message'' then
            (case py_get item ''text'' (JStr []) of
               Inl e \<Rightarrow> (Inl e, p)
             | Inr text \<Rightarrow>
                 (Inr (Some \<lparr>cev_type = ITEM_COMPLETED, cev_data = data, cev_raw = data\<rparr>),
                  if py_truth text then
                    cx_fire (cx_on_text p) (CxOnText text)
                      (p\<lparr>cx_stats := (cx_stats p)
                           \<lparr>cx_text_chunks := cx_text_chunks (cx_stats p) + 1\<rparr>\<rparr>)
                  else p))
          else if item_type = JStr ''tool_call'' \<or> item_type = JStr ''command_execution'' then
            (case py_get item ''tool'' JNull of
               Inl e \<Rightarrow> (Inl e, p)
             | Inr tool \<Rightarrow>
                 (case py_get item ''command'' JNull of
                    Inl e \<Rightarrow> (Inl e, p)
                  | Inr command \<Rightarrow>
                      (let name = py_or tool (py_or command (JStr ''tool'')) in
                       (Inr (Some \<lparr>cev_type = ITEM_COMPLETED, cev_data = data,
                                   cev_raw = data\<rparr>),
                        cx_fire (cx_on_tool p) (CxOnTool (str_of name))
                          (p\<lparr>cx_stats := (cx_stats p)
                               \<lparr>cx_tool_uses := cx_tool_uses (cx_stats p) + 1\<rparr>\<rparr>)))))
          else (Inr (Some \<lparr>cev_type = ITEM_COMPLETED, cev_data = data, cev_raw = data\<rparr>), p)))"

definition cx_turn_done ::
  "('n json \<Rightarrow> string) \<Rightarrow> 'n::{zero,one,plus} CodexParser \<Rightarrow> 'n json \<Rightarrow> bool
    \<Rightarrow> (error + 'n CodexEvent option) \<times> 'n CodexParser" where
  "cx_turn_done str_of p data failed =
     (case py_get data ''duration_ms'' (JNum 0) of
        Inl e \<Rightarrow> (Inl e, p)
      | Inr duration \<Rightarrow>
     (let p1 = p\<lparr>cx_stats := (cx_stats p)\<lparr>cx_duration_ms := duration\<rparr>\<rparr> in
      case py_get data ''usage'' (JObj []) of
        Inl e \<Rightarrow> (Inl e, p1)
      | Inr usage \<Rightarrow>
     (case py_get usage ''input_tokens'' (JNum 0) of
        Inl e \<Rightarrow> (Inl e, p1)
      | Inr input_tokens \<Rightarrow>
     (case py_get usage ''output_tokens'' (JNum 0) of
        Inl e \<Rightarrow> (Inl e, p1)
      | Inr output_tokens \<Rightarrow>
     (case py_add input_tokens output_tokens of
        Inl e \<Rightarrow> (Inl e, p1)
      | Inr tokens \<Rightarrow>
     (let p2 = p1\<lparr>cx_stats := (cx_stats p1)\<lparr>cx_total_tokens := tokens, cx_is_error := failed\<rparr>\<rparr>;
          event = \<lparr>cev_type = (if failed then TURN_FAILED else TURN_COMPLETED),
                   cev_data = data, cev_raw = data\<rparr>
      in if failed \<and> cx_on_error p2 then
           (case py_get data ''error'' (JObj []) of
              Inl e \<Rightarrow> (Inl e, p2)
            | Inr err \<Rightarrow>
                (case py_get err ''message'' JNull of
                   Inl e \<Rightarrow> (Inl e, p2)
                 | Inr message \<Rightarrow>
                     (Inr (Some event),
                      cx_fire True
                        (CxOnError (str_of (py_or message (JStr ''Unknown error'')))) p2)))
         else (Inr (Some event), p2)))))))"

definition cx_parse_line ::
  "'n::{zero,one,plus} loads \<Rightarrow> ('n json \<Rightarrow> string) \<Rightarrow> 'n CodexParser \<Rightarrow> string
    \<Rightarrow> (error + 'n CodexEvent option) \<times> 'n CodexParser" where
  "cx_parse_line loads str_of p line0 =
     (let line = strip line0 in
      if line = [] then (Inr None, p)
      else case loads line of
        Inl e \<Rightarrow> (case e of JSONDecodeError msg \<Rightarrow> (Inr None, p) | _ \<Rightarrow> (Inl e, p))
      | Inr data \<Rightarrow>
          (case py_get data ''type'' (JStr []) of
             Inl e \<Rightarrow> (Inl e, p)
           | Inr msg_type \<Rightarrow>
               if msg_type = JStr ''thread.started'' then
                 (case py_get data ''thread_id'' (JStr []) of
                    Inl e \<Rightarrow> (Inl e, p)
                  | Inr tid \<Rightarrow>
                      (Inr (Some \<lparr>cev_type = THREAD_STARTED, cev_data = data, cev_raw = data\<rparr>),
                       p\<lparr>cx_stats := (cx_stats p)\<lparr>cx_thread_id := tid\<rparr>\<rparr>))
               else if msg_type = JStr ''item.completed'' then cx_item_completed str_of p data
               else if msg_type = JStr ''turn.completed'' \<or> msg_type = JStr ''turn.failed'' then
                 cx_turn_done str_of p data (msg_type = JStr ''turn.failed'')
               else if msg_type = JStr ''error'' then
                 (case py_get data ''message'' JNull of
                    Inl e \<Rightarrow> (Inl e, p)
                  | Inr message \<Rightarrow>
                      (Inr (Some \<lparr>cev_type = CODEX_ERROR, cev_data = data, cev_raw = data\<rparr>),
                       cx_fire (cx_on_error p)
                         (CxOnError (str_of (py_or message (JStr ''Error'')))) p))
               else (Inr None, p)))"

section \<open>claude-headless/examples/multi-turn/stateful-agent.py\<close>

record 'n Turn =
  timestamp :: string
  prompt :: string
  response :: string
  t_cost_usd :: 'n
  t_duration_ms :: 'n

record 'n Session =
  s_session_id :: string
  s_name :: string
  created_at :: string
  turns :: "'n Turn list"
  total_cost_usd :: 'n
  parent_session_id :: "string option"

text \<open>
  The constructor with the defaults of the dataclass: no turn, total cost \<open>0.0\<close>, and
  the parent that the caller gives (\<open>None\<close> by default).
\<close>

definition new_Session :: "string \<Rightarrow> string \<Rightarrow> string \<Rightarrow> string option \<Rightarrow> 'n::zero Session" where
  "new_Session sid name created parent =
     \<lparr>s_session_id = sid, s_name = name, created_at = created, turns = [],
      total_cost_usd = 0, parent_session_id = parent\<rparr>"

definition add_turn :: "'n::plus Session \<Rightarrow> 'n Turn \<Rightarrow> 'n Session" where
  "add_turn s turn = s\<lparr>turns := turns s @ [turn], total_cost_usd := total_cost_usd s + t_cost_usd turn\<rparr>"

text \<open>\<open>sum(turn.cost_usd for turn in turns)\<close>: the costs added from the left, starting at \<open>0\<close>.\<close>

definition sum_costs :: "'n::{zero,plus} Turn list \<Rightarrow> 'n" where
  "sum_costs ts = foldl (+) 0 (map t_cost_usd ts)"

text \<open>\<open>to_dict\<close> is \<open>dataclasses.asdict\<close>: one key per field, in the order of the fields.\<close>

definition turn_to_dict :: "'n Turn \<Rightarrow> 'n json" where
  "turn_to_dict t =
     JObj [(''timestamp'', JStr (timestamp t)), (''prompt'', JStr (prompt t)),
           (''response'', JStr (response t)), (''cost_usd'', JNum (t_cost_usd t)),
           (''duration_ms'', JNum (t_duration_ms t))]"

definition to_dict :: "'n Session \<Rightarrow> 'n json" where
  "to_dict s =
     JObj [(''session_id'', JStr (s_session_id s)), (''name'', JStr (s_name s)),
           (''created_at'', JStr (created_at s)),
           (''turns'', JArr (map turn_to_dict (turns s))),
           (''total_cost_usd'', JNum (total_cost_usd s)),
           (''parent_session_id'',
              (case parent_session_id s of None \<Rightarrow> JNull | Some p \<Rightarrow> JStr p))]"

text \<open>Reading a value into an annotated field.\<close>

fun as_str :: "'n json \<Rightarrow> error + string" where
  "as_str (JStr s) = Inr s"
| "as_str _ = Inl IllTyped"

fun as_num :: "'n json \<Rightarrow> error + 'n" where
  "as_num (JNum n) = Inr n"
| "as_num _ = Inl IllTyped"

fun as_opt_str :: "'n json \<Rightarrow> error + string option" where
  "as_opt_str JNull = Inr None"
| "as_opt_str (JStr s) = Inr (Some s)"
| "as_opt_str _ = Inl IllTyped"

definition dict_get :: "(string \<times> 'n json) list \<Rightarrow> string \<Rightarrow> 'n json \<Rightarrow> 'n json" where
  "dict_get kvs k d = (case map_of kvs k of None \<Rightarrow> d | Some v \<Rightarrow> v)"

text \<open>
  \<open>Turn(**t)\<close>: \<open>t\<close> must be a mapping; a missing field or an unexpected key is a
  \<open>TypeError\<close> (no field of \<open>Turn\<close> has a default).
\<close>

definition Turn_fields :: "string list" where
  "Turn_fields = [''timestamp'', ''prompt'', ''response'', ''cost_usd'', ''duration_ms'']"

definition Turn_of :: "'n json \<Rightarrow> error + 'n Turn" where
  "Turn_of t =
     (case t of
        JObj kvs \<Rightarrow>
          if set (map fst kvs) \<noteq> set Turn_fields then Inl TypeError
          else
            (case as_str (dict_get kvs ''timestamp'' JNull) of Inl e \<Rightarrow> Inl e | Inr ts \<Rightarrow>
             case as_str (dict_get kvs ''prompt'' JNull) of Inl e \<Rightarrow> Inl e | Inr pr \<Rightarrow>
             case as_str (dict_get kvs ''response'' JNull) of Inl e \<Rightarrow> Inl e | Inr rs \<Rightarrow>
             case as_num (dict_get kvs ''cost_usd'' JNull) of Inl e \<Rightarrow> Inl e | Inr c \<Rightarrow>
             case as_num (dict_get kvs ''duration_ms'' JNull) of Inl e \<Rightarrow> Inl e | Inr d \<Rightarrow>
               Inr \<lparr>timestamp = ts, prompt = pr, response = rs, t_cost_usd = c,
                    t_duration_ms = d\<rparr>)
      | _ \<Rightarrow> Inl TypeError)"

text \<open>The list comprehension \<open>[Turn(**t) for t in ...]\<close>.\<close>

fun Turns_of :: "'n json list \<Rightarrow> error + 'n Turn list" where
  "Turns_of [] = Inr []"
| "Turns_of (t # ts) =
     (case Turn_of t of
        Inl e \<Rightarrow> Inl e
      | Inr turn \<Rightarrow> (case Turns_of ts of Inl e \<Rightarrow> Inl e | Inr rest \<Rightarrow> Inr (turn # rest)))"

text \<open>
  \<open>from_dict\<close>: \<open>data.pop("turns", [])\<close> takes the turns out of the dictionary, then
  \<open>cls(**data, turns=turns)\<close> needs \<open>session_id\<close>, \<open>name\<close> and \<open>created_at\<close> and accepts
  \<open>total_cost_usd\<close> and \<open>parent_session_id\<close>, whose defaults are \<open>0.0\<close> and \<open>None\<close>.
\<close>

definition from_dict :: "'n::zero json \<Rightarrow> error + 'n Session" where
  "from_dict data =
     (case data of
        JObj kvs \<Rightarrow>
          (case py_iter (dict_get kvs ''turns'' (JArr [])) of
             Inl e \<Rightarrow> Inl e
           | Inr items \<Rightarrow>
          (case Turns_of items of
             Inl e \<Rightarrow> Inl e
           | Inr ts \<Rightarrow>
          (let rest = filter (\<lambda>kv. fst kv \<noteq> ''turns'') kvs in
           if \<not> set (map fst rest) \<subseteq>
                  {''session_id'', ''name'', ''created_at'', ''total_cost_usd'',
                   ''parent_session_id''}
              \<or> \<not> {''session_id'', ''name'', ''created_at''} \<subseteq> set (map fst rest)
           then Inl TypeError
           else
             (case as_str (dict_get rest ''session_id'' JNull) of Inl e \<Rightarrow> Inl e | Inr sid \<Rightarrow>
              case as_str (dict_get rest ''name'' JNull) of Inl e \<Rightarrow> Inl e | Inr nm \<Rightarrow>
              case as_str (dict_get rest ''created_at'' JNull) of Inl e \<Rightarrow> Inl e | Inr cr \<Rightarrow>
              case as_num (dict_get rest ''total_cost_usd'' (JNum 0)) of Inl e \<Rightarrow> Inl e | Inr tc \<Rightarrow>
              case as_opt_str (dict_get rest ''parent_session_id'' JNull) of Inl e \<Rightarrow> Inl e | Inr par \<Rightarrow>
                Inr \<lparr>s_session_id = sid, s_name = nm, created_at = cr, turns = ts,
                     total_cost_usd = tc, parent_session_id = par\<rparr>))))
      | JArr xs \<Rightarrow> Inl TypeError
      | _ \<Rightarrow> Inl AttributeError)"

text \<open>
  The agent and the world it touches. \<open>sa_files\<close> maps the path of a session file to the
  JSON document it holds (\<open>json.dump\<close> followed by \<open>json.load\<close> is taken to give the document
  back). A \<open>Session\<close> is a mutable object: \<open>sa_heap\<close> lists the objects created so far, an
  object is referred to by its index, and \<open>sa_current\<close> is the reference held in
  \<open>self._current_session\<close>. \<open>now\<close> gives \<open>datetime.now().isoformat()\<close> at each reading of the
  clock, counted in \<open>sa_clock\<close>. The operator \<open>/\<close> of \<open>pathlib\<close> is the parameter \<open>pdiv\<close>:
  it gives the path, written as a string, of a file name under a directory.
\<close>

record 'n sa_state =
  sa_storage_dir :: string
  sa_files :: "string \<Rightarrow> 'n json option"
  sa_heap :: "'n Session list"
  sa_current :: "nat option"
  sa_launched :: "string list list"
  sa_clock :: nat

type_synonym path_div = "string \<Rightarrow> string \<Rightarrow> string"

definition session_path :: "path_div \<Rightarrow> 'n sa_state \<Rightarrow> string \<Rightarrow> string" where
  "session_path pdiv st name = pdiv (sa_storage_dir st) (name @ ''.json'')"

definition save_session :: "path_div \<Rightarrow> 'n Session \<Rightarrow> 'n sa_state \<Rightarrow> 'n sa_state" where
  "save_session pdiv session st =
     st\<lparr>sa_files := (sa_files st)(session_path pdiv st (s_name session) \<mapsto> to_dict session)\<rparr>"

text \<open>\<open>_load_session\<close> returns a reference to a new object, or \<open>None\<close>.\<close>

definition load_session ::
  "path_div \<Rightarrow> string \<Rightarrow> 'n::zero sa_state \<Rightarrow> (error + nat option) \<times> 'n sa_state" where
  "load_session pdiv name st =
     (case sa_files st (session_path pdiv st name) of
        Some doc \<Rightarrow>
          (case from_dict doc of
             Inl e \<Rightarrow> (Inl e, st)
           | Inr session \<Rightarrow>
               (Inr (Some (length (sa_heap st))), st\<lparr>sa_heap := sa_heap st @ [session]\<rparr>))
      | None \<Rightarrow> (Inr None, st))"

definition fork_session ::
  "path_div \<Rightarrow> cli \<Rightarrow> 'n::{zero,plus} batch_loads \<Rightarrow> (nat \<Rightarrow> string) \<Rightarrow> string \<Rightarrow> string
    \<Rightarrow> 'n sa_state \<Rightarrow> (error + nat) \<times> 'n sa_state" where
  "fork_session pdiv cli loads now new_name prompt0 st =
     (case sa_current st of
        None \<Rightarrow> (Inl (RuntimeError ''No current session to fork''), st)
      | Some parent_ref \<Rightarrow>
     (let parent = sa_heap st ! parent_ref;
          cmd = [''claude'', ''-p'', ''--resume'', s_session_id parent, ''--fork-session'',
                 ''--output-format'', ''json'', prompt0];
          st1 = st\<lparr>sa_launched := sa_launched st @ [cmd]\<rparr>
      in case cli (length (sa_launched st)) cmd of
           NotLaunched \<Rightarrow> (Inl OSError, st1)
         | Exited rc out err \<Rightarrow>
     (if rc \<noteq> 0 then (Inl (RuntimeError (''Failed to fork: '' @ err)), st1)
         else case loads out of
           Inl e \<Rightarrow> (Inl e, st1)
         | Inr data \<Rightarrow>
     (case j_session_id data of
        None \<Rightarrow> (Inl (KeyError ''session_id''), st1)
      | Some sid \<Rightarrow>
     (let forked = new_Session sid new_name (now (sa_clock st1)) (Some (s_session_id parent));
          turn = \<lparr>timestamp = now (sa_clock st1 + 1),
                  prompt = ''[FORK from '' @ s_name parent @ ''] '' @ prompt0,
                  response = get_or (j_result data) [],
                  t_cost_usd = get_or (j_total_cost_usd data) 0,
                  t_duration_ms = get_or (j_duration_ms data) 0\<rparr>;
          forked' = add_turn forked turn;
          forked_ref = length (sa_heap st1);
          st2 = st1\<lparr>sa_heap := sa_heap st1 @ [forked'], sa_clock := sa_clock st1 + 2\<rparr>;
          st3 = save_session pdiv forked' st2
      in (Inr forked_ref, st3\<lparr>sa_current := Some forked_ref\<rparr>))))))"

section \<open>claude-headless/examples/production/agent-service.py\<close>

record 'n Config =
  c_session_file :: string
  c_results_dir :: string
  c_queue_file :: string
  c_mcp_config :: string
  c_permission_mode :: string
  c_max_turns :: int
  c_max_retries :: int
  c_budget_usd :: "'n option"

datatype TaskStatus = PENDING | RUNNING | SUCCESS | FAILED | RETRYING

text \<open>
  The field \<open>error\<close> of a \<open>TaskResult\<close> holds either the value of the key \<open>result\<close> of the
  terminal event or \<open>str(e)\<close> of the last exception caught.
\<close>

datatype 'n task_error = Message "'n json" | ExceptionText error

record 'n TaskResult =
  tr_task_id :: string
  tr_prompt :: string
  tr_status :: TaskStatus
  tr_output :: string
  tr_cost_usd :: "'n json"
  tr_duration_ms :: "'n json"
  tr_attempts :: nat
  tr_error :: "'n task_error option"
  tr_output_file :: "string option"

record 'n ServiceStats =
  tasks_completed :: nat
  tasks_failed :: nat
  st_total_cost_usd :: 'n
  st_total_duration_ms :: 'n
  started_at :: string

text \<open>
  The service object and its world: the content of the session file (\<open>None\<close> when it does
  not exist), whether the MCP configuration file exists, the lines written to each file
  of the results directory, the commands it has tried to launch, the delays slept (\<open>time.sleep\<close>) and the
  texts passed to the callback \<open>on_output\<close>. The configuration is never assigned after the
  constructor; it is the parameter \<open>cfg\<close> of each function.
\<close>

record 'n svc_state =
  svc_stats :: "'n ServiceStats"
  svc_session_id :: "string option"
  svc_shutdown_requested :: bool
  svc_session_file :: "string option"
  svc_mcp_exists :: bool
  svc_results :: "string \<Rightarrow> string list option"
  svc_launched :: "string list list"
  svc_slept :: "nat list"
  svc_outputs :: "'n json list"

text \<open>
  As in \<open>ClaudeAgent\<close>, the property \<open>session_id\<close> calls \<open>_run_claude(..., stream=False)\<close>,
  which calls \<open>_build_command\<close>, which reads the property again; the first argument counts
  the call frames left. \<open>svc_run_claude\<close> is the branch \<open>stream=False\<close> of \<open>_run_claude\<close>, the
  only one the property uses.
\<close>

fun svc_session_id_prop ::
      "nat \<Rightarrow> cli \<Rightarrow> 'n batch_loads \<Rightarrow> 'n Config \<Rightarrow> 'n svc_state
        \<Rightarrow> (error + string) \<times> 'n svc_state"
  and svc_build_command ::
      "nat \<Rightarrow> cli \<Rightarrow> 'n batch_loads \<Rightarrow> 'n Config \<Rightarrow> string \<Rightarrow> bool \<Rightarrow> 'n svc_state
        \<Rightarrow> (error + string list) \<times> 'n svc_state"
  and svc_run_claude ::
      "nat \<Rightarrow> cli \<Rightarrow> 'n batch_loads \<Rightarrow> 'n Config \<Rightarrow> string \<Rightarrow> 'n svc_state
        \<Rightarrow> (error + 'n batch_json) \<times> 'n svc_state"
where
  "svc_session_id_prop 0 cli bloads cfg st = (Inl RecursionError, st)"
| "svc_session_id_prop (Suc d) cli bloads cfg st =
     (if truthy (svc_session_id st) then (Inr (the (svc_session_id st)), st)
      else case svc_session_file st of
        Some content \<Rightarrow>
          (Inr (strip content), st\<lparr>svc_session_id := Some (strip content)\<rparr>)
      | None \<Rightarrow>
          (case svc_run_claude d cli bloads cfg ''Initialize agent session'' st of
             (Inl e, st') \<Rightarrow> (Inl e, st')
           | (Inr result, st') \<Rightarrow>
               (Inr (get_or (j_session_id result) []),
                st'\<lparr>svc_session_id := Some (get_or (j_session_id result) []),
                    svc_session_file := Some (get_or (j_session_id result) [])\<rparr>)))"
| "svc_build_command 0 cli bloads cfg prompt0 stream st = (Inl RecursionError, st)"
| "svc_build_command (Suc d) cli bloads cfg prompt0 stream st =
     (case svc_session_id_prop d cli bloads cfg st of
        (Inl e, st') \<Rightarrow> (Inl e, st')
      | (Inr sid, st') \<Rightarrow>
          (Inr ([''claude'', ''-p'', ''--resume'', sid, ''--output-format'',
                 (if stream then ''stream-json'' else ''json''),
                 ''--permission-mode'', c_permission_mode cfg,
                 ''--max-turns'', str_int (c_max_turns cfg)]
                @ (if svc_mcp_exists st' then [''--mcp-config'', c_mcp_config cfg] else [])
                @ [prompt0]), st'))"
| "svc_run_claude 0 cli bloads cfg prompt0 st = (Inl RecursionError, st)"
| "svc_run_claude (Suc d) cli bloads cfg prompt0 st =
     (case svc_build_command d cli bloads cfg prompt0 False st of
        (Inl e, st') \<Rightarrow> (Inl e, st')
      | (Inr cmd, st') \<Rightarrow>
          (let st'' = st'\<lparr>svc_launched := svc_launched st' @ [cmd]\<rparr> in
           case cli (length (svc_launched st')) cmd of
             NotLaunched \<Rightarrow> (Inl OSError, st'')
           | Exited rc out err \<Rightarrow>
               (if rc \<noteq> 0 then (Inl (RuntimeError (''Claude failed: '' @ err)), st'')
                   else case bloads out of
                     Inl e \<Rightarrow> (Inl e, st'')
                   | Inr data \<Rightarrow> (Inr data, st''))))"

text \<open>
  Iterating over \<open>proc.stdout\<close> (opened with \<open>text=True\<close>) gives the lines of the output.
  Each line is stripped and a blank one skipped, so the model cuts at every line feed and
  carriage return.
\<close>

fun split_lines :: "string \<Rightarrow> string \<Rightarrow> string list" where
  "split_lines acc [] = (if acc = [] then [] else [acc])"
| "split_lines acc (c # cs) =
     (if c = CHR 0x0A \<or> c = CHR 0x0D then acc # split_lines [] cs
      else split_lines (acc @ [c]) cs)"

definition stdout_lines :: "string \<Rightarrow> string list" where
  "stdout_lines out = split_lines [] out"

text \<open>
  The loop over the content blocks of an \<open>assistant\<close> line in \<open>run_task\<close>: every block of
  type \<open>text\<close> is appended to \<open>text_output\<close> and passed to \<open>on_output\<close> when that is given.
  The result is the exception raised (if any), \<open>text_output\<close> and the callback's log.
\<close>

fun text_blocks ::
  "bool \<Rightarrow> 'n json list \<Rightarrow> 'n json list \<Rightarrow> 'n json list
    \<Rightarrow> error option \<times> 'n json list \<times> 'n json list" where
  "text_blocks on_output [] text_output outs = (None, text_output, outs)"
| "text_blocks on_output (block # rest) text_output outs =
     (case py_get block ''type'' JNull of
        Inl e \<Rightarrow> (Some e, text_output, outs)
      | Inr block_type \<Rightarrow>
          if block_type = JStr ''text'' then
            (case py_get block ''text'' (JStr []) of
               Inl e \<Rightarrow> (Some e, text_output, outs)
             | Inr text \<Rightarrow>
                 text_blocks on_output rest (text_output @ [text])
                   (if on_output then outs @ [text] else outs))
          else text_blocks on_output rest text_output outs)"

text \<open>
  The loop \<open>for line in proc.stdout\<close> of \<open>run_task\<close>. Its state: the lines written to the
  output file, \<open>text_output\<close>, \<open>result_data\<close> and the callback's log. A
  \<open>JSONDecodeError\<close> is caught by the inner \<open>try\<close>; any other exception leaves the loop.
\<close>

fun read_lines ::
  "'n loads \<Rightarrow> bool \<Rightarrow> string list \<Rightarrow> string list \<Rightarrow> 'n json list \<Rightarrow> 'n json \<Rightarrow> 'n json list
    \<Rightarrow> error option \<times> string list \<times> 'n json list \<times> 'n json \<times> 'n json list" where
  "read_lines loads on_output [] written text_output result_data outs =
     (None, written, text_output, result_data, outs)"
| "read_lines loads on_output (line0 # rest) written text_output result_data outs =
     (let line = strip line0 in
      if line = [] then read_lines loads on_output rest written text_output result_data outs
      else
        (let written' = written @ [line @ [CHR 0x0A]] in
         case loads line of
           Inl e \<Rightarrow>
             (case e of
                JSONDecodeError msg \<Rightarrow>
                  read_lines loads on_output rest written' text_output result_data outs
              | _ \<Rightarrow> (Some e, written', text_output, result_data, outs))
         | Inr data \<Rightarrow>
             (case py_get data ''type'' (JStr []) of
                Inl e \<Rightarrow> (Some e, written', text_output, result_data, outs)
              | Inr msg_type \<Rightarrow>
                  if msg_type = JStr ''assistant'' then
                    (case py_get data ''message'' (JObj []) of
                       Inl e \<Rightarrow> (Some e, written', text_output, result_data, outs)
                     | Inr message \<Rightarrow>
                         (case py_get message ''content'' (JArr []) of
                            Inl e \<Rightarrow> (Some e, written', text_output, result_data, outs)
                          | Inr content \<Rightarrow>
                              (case py_iter content of
                                 Inl e \<Rightarrow> (Some e, written', text_output, result_data, outs)
                               | Inr blocks \<Rightarrow>
                                   (case text_blocks on_output blocks text_output outs of
                                      (Some e, text_output', outs') \<Rightarrow>
                                        (Some e, written', text_output', result_data, outs')
                                    | (None, text_output', outs') \<Rightarrow>
                                        read_lines loads on_output rest written' text_output'
                                          result_data outs'))))
                  else if msg_type = JStr ''result'' then
                    read_lines loads on_output rest written' text_output data outs
                  else read_lines loads on_output rest written' text_output result_data outs)))"

text \<open>\<open>total += v\<close> for a number \<open>total\<close> and a value of the terminal event.\<close>

fun num_add :: "'n::{zero,one,plus} \<Rightarrow> 'n json \<Rightarrow> error + 'n" where
  "num_add a (JNum b) = Inr (a + b)"
| "num_add a (JBool b) = Inr (a + num_of_bool b)"
| "num_add a _ = Inl TypeError"

text \<open>
  The statements of the \<open>try\<close> block of \<open>run_task\<close> that follow \<open>proc.wait()\<close>: the check
  of the exit code, the statistics and the \<open>TaskResult\<close>. \<open>Inr\<close> is the \<open>TaskResult\<close>
  returned, \<open>Inl\<close> the exception raised. The budget check only writes a warning to the
  log and is left out.
\<close>

definition task_outcome ::
  "int \<Rightarrow> string \<Rightarrow> 'n json list \<Rightarrow> 'n::{zero,one,plus} json \<Rightarrow> string \<Rightarrow> string \<Rightarrow> string
    \<Rightarrow> nat \<Rightarrow> 'n svc_state \<Rightarrow> (error + 'n TaskResult) \<times> 'n svc_state" where
  "task_outcome rc err text_output result_data prompt0 task_id output_file attempt st3 =
     (if rc \<noteq> 0 then (Inl (RuntimeError (''CLI error: '' @ err)), st3)
      else
     (case py_get result_data ''is_error'' (JBool False) of
        Inl e \<Rightarrow> (Inl e, st3)
      | Inr is_err \<Rightarrow>
     (case py_get result_data ''total_cost_usd'' (JNum 0) of
        Inl e \<Rightarrow> (Inl e, st3)
      | Inr cost \<Rightarrow>
     (case py_get result_data ''duration_ms'' (JNum 0) of
        Inl e \<Rightarrow> (Inl e, st3)
      | Inr duration \<Rightarrow>
     (case num_add (st_total_cost_usd (svc_stats st3)) cost of
        Inl e \<Rightarrow> (Inl e, st3)
      | Inr total_cost \<Rightarrow>
     (let st4 = st3\<lparr>svc_stats := (svc_stats st3)\<lparr>st_total_cost_usd := total_cost\<rparr>\<rparr> in
      case num_add (st_total_duration_ms (svc_stats st4)) duration of
        Inl e \<Rightarrow> (Inl e, st4)
      | Inr total_duration \<Rightarrow>
     (let st5 = st4\<lparr>svc_stats := (svc_stats st4)\<lparr>st_total_duration_ms := total_duration\<rparr>\<rparr> in
      if py_truth is_err then
        (let st6 = st5\<lparr>svc_stats := (svc_stats st5)
                       \<lparr>tasks_failed := tasks_failed (svc_stats st5) + 1\<rparr>\<rparr> in
         case join_values text_output of
           Inl e \<Rightarrow> (Inl e, st6)
         | Inr output \<Rightarrow>
             (case py_get result_data ''result'' (JStr ''Unknown error'') of
                Inl e \<Rightarrow> (Inl e, st6)
              | Inr message \<Rightarrow>
                  (Inr \<lparr>tr_task_id = task_id, tr_prompt = prompt0, tr_status = FAILED,
                        tr_output = output, tr_cost_usd = cost, tr_duration_ms = duration,
                        tr_attempts = attempt, tr_error = Some (Message message),
                        tr_output_file = Some output_file\<rparr>, st6)))
      else
        (let st6 = st5\<lparr>svc_stats := (svc_stats st5)
                       \<lparr>tasks_completed := tasks_completed (svc_stats st5) + 1\<rparr>\<rparr> in
         case join_values text_output of
           Inl e \<Rightarrow> (Inl e, st6)
         | Inr output \<Rightarrow>
             (Inr \<lparr>tr_task_id = task_id, tr_prompt = prompt0, tr_status = SUCCESS,
                   tr_output = output, tr_cost_usd = cost, tr_duration_ms = duration,
                   tr_attempts = attempt, tr_error = None,
                   tr_output_file = Some output_file\<rparr>, st6)))))))))"

text \<open>
  One pass through the body of the \<open>try\<close> in \<open>run_task\<close>, for the attempt numbered
  \<open>attempt\<close>: the command is built, the process launched, its lines read and written to
  the output file, and \<open>task_outcome\<close> gives the result.
\<close>

definition svc_attempt ::
  "nat \<Rightarrow> cli \<Rightarrow> 'n batch_loads \<Rightarrow> 'n::{zero,one,plus} loads \<Rightarrow> 'n Config \<Rightarrow> string \<Rightarrow> string
    \<Rightarrow> string \<Rightarrow> bool \<Rightarrow> nat \<Rightarrow> 'n svc_state \<Rightarrow> (error + 'n TaskResult) \<times> 'n svc_state" where
  "svc_attempt d cli bloads loads cfg prompt0 task_id output_file on_output attempt st =
     (case svc_build_command d cli bloads cfg prompt0 True st of
        (Inl e, st1) \<Rightarrow> (Inl e, st1)
      | (Inr cmd, st1) \<Rightarrow>
     (let st2 = st1\<lparr>svc_launched := svc_launched st1 @ [cmd]\<rparr> in
      case cli (length (svc_launched st1)) cmd of
        NotLaunched \<Rightarrow> (Inl OSError, st2)
      | Exited rc out err \<Rightarrow>
     (case read_lines loads on_output (stdout_lines out) [] [] (JObj []) (svc_outputs st2) of
        (raised, written, text_output, result_data, outs) \<Rightarrow>
     (let st3 = st2\<lparr>svc_results := (svc_results st2)(output_file \<mapsto> written),
                    svc_outputs := outs\<rparr> in
      case raised of
        Some e \<Rightarrow> (Inl e, st3)
      | None \<Rightarrow>
          task_outcome rc err text_output result_data prompt0 task_id output_file attempt
            st3))))"

text \<open>
  The loop \<open>while attempt < self.config.max_retries\<close> of \<open>run_task\<close>, entered with the
  current values of \<open>attempt\<close> and \<open>last_error\<close>, and the statements after it.
\<close>

function run_task_loop ::
  "nat \<Rightarrow> cli \<Rightarrow> 'n batch_loads \<Rightarrow> 'n::{zero,one,plus} loads \<Rightarrow> 'n Config \<Rightarrow> string \<Rightarrow> string
    \<Rightarrow> string \<Rightarrow> bool \<Rightarrow> nat \<Rightarrow> error option \<Rightarrow> 'n svc_state
    \<Rightarrow> 'n TaskResult \<times> 'n svc_state" where
  "run_task_loop d cli bloads loads cfg prompt0 task_id output_file on_output attempt
       last_error st =
     (if int attempt < c_max_retries cfg then
        (let attempt' = attempt + 1;
             st1 = (if attempt' > 1
                    then st\<lparr>svc_slept := svc_slept st @ [2 ^ (attempt' - 1)]\<rparr> else st)
         in case svc_attempt d cli bloads loads cfg prompt0 task_id output_file on_output
                   attempt' st1 of
              (Inr result, st2) \<Rightarrow> (result, st2)
            | (Inl e, st2) \<Rightarrow>
                run_task_loop d cli bloads loads cfg prompt0 task_id output_file on_output
                  attempt' (Some e) st2)
      else
        (\<lparr>tr_task_id = task_id, tr_prompt = prompt0, tr_status = FAILED, tr_output = [],
          tr_cost_usd = JNum 0, tr_duration_ms = JNum 0, tr_attempts = attempt,
          tr_error = map_option ExceptionText last_error,
          tr_output_file = Some output_file\<rparr>,
         st\<lparr>svc_stats := (svc_stats st)\<lparr>tasks_failed := tasks_failed (svc_stats st) + 1\<rparr>\<rparr>))"
  by pat_completeness auto
termination
  by (relation "measure (\<lambda>(d, cli, bloads, loads, cfg, prompt0, task_id, output_file,
          on_output, attempt, last_error, st). nat (c_max_retries cfg) - attempt)") auto

text \<open>
  \<open>run_task\<close>: \<open>now_ms\<close> is \<open>int(time.time() * 1000)\<close>, read when no task identifier is
  given, and \<open>pdiv\<close> is the operator \<open>/\<close> of \<open>pathlib\<close>, as in the stateful agent.
\<close>

definition task_id_or :: "string option \<Rightarrow> int \<Rightarrow> string" where
  "task_id_or task_id0 now_ms =
     (if truthy task_id0 then the task_id0 else ''task-'' @ str_int now_ms)"

definition output_file_of :: "path_div \<Rightarrow> 'n Config \<Rightarrow> string \<Rightarrow> string" where
  "output_file_of pdiv cfg task_id = pdiv (c_results_dir cfg) (task_id @ ''.jsonl'')"

definition run_task ::
  "nat \<Rightarrow> path_div \<Rightarrow> cli \<Rightarrow> 'n batch_loads \<Rightarrow> 'n::{zero,one,plus} loads \<Rightarrow> 'n Config \<Rightarrow> int
    \<Rightarrow> string \<Rightarrow> string option \<Rightarrow> bool \<Rightarrow> 'n svc_state \<Rightarrow> 'n TaskResult \<times> 'n svc_state" where
  "run_task d pdiv cli bloads loads cfg now_ms prompt0 task_id0 on_output st =
     (let task_id = task_id_or task_id0 now_ms;
          output_file = output_file_of pdiv cfg task_id
      in run_task_loop d cli bloads loads cfg prompt0 task_id output_file on_output 0 None st)"

section \<open>Inputs and predicates of the properties\<close>

text \<open>
  A content block on which the loop of \<open>parse_line\<close> returns: a \<open>text\<close> block whose
  text is truthy, or a \<open>tool_use\<close>, \<open>tool_result\<close> or \<open>thinking\<close> block. A block the loop
  passes over: a \<open>text\<close> block whose text is empty (or otherwise falsy), or a block of any
  other type.
\<close>

fun block_returns :: "'n::zero json \<Rightarrow> bool" where
  "block_returns (JObj kvs) =
     (if dict_get kvs ''type'' (JStr []) = JStr ''text''
      then py_truth (dict_get kvs ''text'' (JStr []))
      else dict_get kvs ''type'' (JStr [])
             \<in> {JStr ''tool_use'', JStr ''tool_result'', JStr ''thinking''})"
| "block_returns _ = False"

fun block_skipped :: "'n::zero json \<Rightarrow> bool" where
  "block_skipped (JObj kvs) =
     (if dict_get kvs ''type'' (JStr []) = JStr ''text''
      then \<not> py_truth (dict_get kvs ''text'' (JStr []))
      else dict_get kvs ''type'' (JStr [])
             \<notin> {JStr ''tool_use'', JStr ''tool_result'', JStr ''thinking''})"
| "block_skipped _ = False"

text \<open>An \<open>assistant\<close> object with the given content blocks.\<close>

definition assistant_obj :: "'n json list \<Rightarrow> 'n json" where
  "assistant_obj blocks =
     JObj [(''type'', JStr ''assistant''), (''message'', JObj [(''content'', JArr blocks)])]"

definition text_block :: "string \<Rightarrow> 'n json" where
  "text_block s = JObj [(''type'', JStr ''text''), (''text'', JStr s)]"

text \<open>The three lines of the end-to-end scenario and the values they denote.\<close>

definition line1 :: string where
  \<open>line1 = ''{"type":"assistant","message":{"content":[{"type":"text","text":"Hi"}]}}''\<close>

definition line2 :: string where
  \<open>line2 = ''{"type":"assistant","message":{"content":[{"type":"text","text":" there"}]}}''\<close>

definition line3 :: string where
  \<open>line3 = ''{"type":"result","total_cost_usd":0.01,"duration_ms":120,"session_id":"abc","is_error":false}''\<close>

definition result_obj :: "'n \<Rightarrow> 'n \<Rightarrow> 'n json" where
  "result_obj c d =
     JObj [(''type'', JStr ''result''), (''total_cost_usd'', JNum c), (''duration_ms'', JNum d),
           (''session_id'', JStr ''abc''), (''is_error'', JBool False)]"

text \<open>A \<open>json.loads\<close> that knows the three lines and rejects every other text.\<close>

definition scenario_loads :: "real loads" where
  "scenario_loads l =
     (if l = line1 then Inr (assistant_obj [text_block ''Hi''])
      else if l = line2 then Inr (assistant_obj [text_block '' there''])
      else if l = line3 then Inr (result_obj 0.01 120)
      else Inl (JSONDecodeError ''Expecting value''))"

text \<open>The invariant of a \<open>Session\<close>: the running total is the sum of the costs of its turns.\<close>

definition session_inv :: "'n::{zero,plus} Session \<Rightarrow> bool" where
  "session_inv s = (total_cost_usd s = sum_costs (turns s))"

text \<open>The content blocks of a decoded line whose type is \<open>assistant\<close>.\<close>

definition assistant_blocks :: "'n json \<Rightarrow> 'n json list option" where
  "assistant_blocks data =
     (case data of
        JObj kvs \<Rightarrow>
          if dict_get kvs ''type'' (JStr []) = JStr ''assistant'' then
            (case dict_get kvs ''message'' (JObj []) of
               JObj m \<Rightarrow> (case dict_get m ''content'' (JArr []) of JArr bs \<Rightarrow> Some bs | _ \<Rightarrow> None)
             | _ \<Rightarrow> None)
          else None
      | _ \<Rightarrow> None)"

text \<open>
  Stand-ins for \<open>json.loads\<close> at a concrete input: one that decodes every text to a given
  value, one that rejects every text with a \<open>JSONDecodeError\<close> and one that raises a given
  exception on every text; \<open>plain_str\<close> is \<open>str()\<close> on a string.
\<close>

definition loads_to :: "'n json \<Rightarrow> 'n loads" where
  "loads_to j l = Inr j"

definition loads_rejecting :: "string \<Rightarrow> 'n loads" where
  "loads_rejecting msg l = Inl (JSONDecodeError msg)"

definition loads_raising :: "error \<Rightarrow> 'n loads" where
  "loads_raising e l = Inl e"

text \<open>
  A line of a thousand opening brackets: not valid JSON, and nested deeper than the
  decoder of \<open>json.loads\<close> recurses, which raises \<open>RecursionError\<close> on it.
\<close>

definition deep_line :: string where
  "deep_line = replicate 1000 (CHR ''['')"

definition loads_batch_to :: "'n batch_json \<Rightarrow> 'n batch_loads" where
  "loads_batch_to j out = Inr j"

definition plain_str :: "'n json \<Rightarrow> string" where
  "plain_str v = (case v of JStr s \<Rightarrow> s | _ \<Rightarrow> [])"

definition read_tool_block :: "'n json" where
  "read_tool_block = JObj [(''type'', JStr ''tool_use''), (''name'', JStr ''Read'')]"

definition empty_text_then_tool :: "real json" where
  "empty_text_then_tool = assistant_obj [text_block [], read_tool_block]"

definition three_blocks :: "real json" where
  "three_blocks = assistant_obj [text_block [], read_tool_block, text_block ''later'']"

text \<open>A batch run that exits with code 1 and still prints a JSON object.\<close>

definition partial_json :: "real batch_json" where
  "partial_json =
     \<lparr>j_result = Some ''partial'', j_total_cost_usd = None, j_duration_ms = None,
      j_session_id = None, j_is_error = None, j_num_turns = None\<rparr>"

definition exit_1_cli :: cli where
  \<open>exit_1_cli n cmd = Exited 1 ''{"result": "partial"}'' ''rate limited''\<close>

definition cw_ready :: cw_state where
  "cw_ready =
     \<lparr>cw_file = Some ''abc'', cw_permission_mode = ''default'', cw_allowed_tools = None,
      cw_session_id = Some ''abc'', cw_launched = []\<rparr>"


text \<open>Values of the scenarios of the stateful agent and of the service.\<close>

definition turn_one :: "real Turn" where
  "turn_one =
     \<lparr>timestamp = ''2026-01-01T10:00:00'', prompt = ''Initialize session'', response = ''ready'',
      t_cost_usd = 0.01, t_duration_ms = 120\<rparr>"

definition turn_two :: "real Turn" where
  "turn_two =
     \<lparr>timestamp = ''2026-01-01T10:05:00'', prompt = ''Analyze'', response = ''done'',
      t_cost_usd = 0.02, t_duration_ms = 300\<rparr>"

definition session_a :: "real Session" where
  "session_a = add_turn (new_Session ''sess-A'' ''A'' ''2026-01-01T10:00:00'' None) turn_one"

definition sa_demo :: "real sa_state" where
  "sa_demo =
     \<lparr>sa_storage_dir = ''/home/op/.claude-agent/sessions'', sa_files = (\<lambda>path. None),
      sa_heap = [session_a], sa_current = Some 0, sa_launched = [], sa_clock = 0\<rparr>"

definition fork_json :: "real batch_json" where
  "fork_json =
     \<lparr>j_result = Some ''forked'', j_total_cost_usd = Some 0.02, j_duration_ms = Some 50,
      j_session_id = Some ''sess-B'', j_is_error = Some False, j_num_turns = Some 1\<rparr>"

definition exit_0_cli :: cli where
  "exit_0_cli n cmd = Exited 0 [] []"

definition demo_now :: "nat \<Rightarrow> string" where
  "demo_now n = ''2026-01-01T11:00:0'' @ show_nat n"

text \<open>
  What the property \<open>session_id\<close> of the service returns when it returns, the state it
  leaves, and the command \<open>_build_command\<close> assembles from an identifier.
\<close>

definition svc_sid :: "'n svc_state \<Rightarrow> string" where
  "svc_sid st =
     (if truthy (svc_session_id st) then the (svc_session_id st)
      else case svc_session_file st of Some content \<Rightarrow> strip content | None \<Rightarrow> [])"

definition svc_cached :: "'n svc_state \<Rightarrow> 'n svc_state" where
  "svc_cached st =
     (if truthy (svc_session_id st) then st
      else case svc_session_file st of
             Some content \<Rightarrow> st\<lparr>svc_session_id := Some (strip content)\<rparr>
           | None \<Rightarrow> st)"

definition svc_command :: "'n Config \<Rightarrow> string \<Rightarrow> bool \<Rightarrow> bool \<Rightarrow> string \<Rightarrow> string list" where
  "svc_command cfg sid mcp stream prompt0 =
     [''claude'', ''-p'', ''--resume'', sid, ''--output-format'',
      (if stream then ''stream-json'' else ''json''),
      ''--permission-mode'', c_permission_mode cfg,
      ''--max-turns'', str_int (c_max_turns cfg)]
     @ (if mcp then [''--mcp-config'', c_mcp_config cfg] else [])
     @ [prompt0]"

text \<open>
  A service with a cached identifier, a process that prints one \<open>assistant\<close> line and no
  \<open>result\<close> line, and a process that exits with code 1 on its first two launches and
  prints the three lines of the scenario on the third.
\<close>

definition demo_cfg :: "real Config" where
  "demo_cfg =
     \<lparr>c_session_file = ''/data/session.id'', c_results_dir = ''/data/results'',
      c_queue_file = ''/data/queue.txt'', c_mcp_config = ''/app/mcp.json'',
      c_permission_mode = ''acceptEdits'', c_max_turns = 20, c_max_retries = 3,
      c_budget_usd = None\<rparr>"

definition svc_ready :: "real svc_state" where
  "svc_ready =
     \<lparr>svc_stats = \<lparr>tasks_completed = 0, tasks_failed = 0, st_total_cost_usd = 0,
                    st_total_duration_ms = 0, started_at = ''2026-01-01T09:00:00''\<rparr>,
      svc_session_id = Some ''abc'', svc_shutdown_requested = False,
      svc_session_file = Some ''abc'', svc_mcp_exists = False,
      svc_results = (\<lambda>path. None), svc_launched = [], svc_slept = [], svc_outputs = []\<rparr>"

definition no_result_cli :: cli where
  "no_result_cli n cmd = Exited 0 (line1 @ [CHR 0x0A]) []"



text \<open>
  The operator \<open>/\<close> of \<open>pathlib\<close> on a directory and a file name: an absolute file name
  stands for itself, any other is put under the directory.
\<close>

definition posix_div :: path_div where
  "posix_div dir file =
     (if file \<noteq> [] \<and> hd file = CHR ''/'' then file else dir @ ''/'' @ file)"


definition has_session :: "'n svc_state \<Rightarrow> bool" where
  "has_session st =
     (case svc_session_file st of None \<Rightarrow> truthy (svc_session_id st) | Some content \<Rightarrow> True)"













section \<open>Facts about strings and values\<close>

lemma dropWhile_keeps: "xs \<noteq> [] \<Longrightarrow> \<not> P (hd xs) \<Longrightarrow> dropWhile P xs = xs"
  by (cases xs) simp_all

lemma strip_unchanged:
  "s \<noteq> [] \<Longrightarrow> \<not> py_isspace (hd s) \<Longrightarrow> \<not> py_isspace (last s) \<Longrightarrow> strip s = s"
  unfolding strip_def by (simp add: dropWhile_keeps hd_rev)

lemma strip_lines: "strip line1 = line1" "strip line2 = line2" "strip line3 = line3"
  by (simp_all add: strip_unchanged line1_def line2_def line3_def py_isspace_def)

lemma lines_nonempty: "line1 \<noteq> []" "line2 \<noteq> []" "line3 \<noteq> []"
  by (simp_all add: line1_def line2_def line3_def)

lemma lines_distinct: "line1 \<noteq> line2" "line1 \<noteq> line3" "line2 \<noteq> line3"
  by (simp_all add: line1_def line2_def line3_def)

lemma lines_no_newline:
  "CHR 0x0A \<notin> set line1" "CHR 0x0D \<notin> set line1"
  "CHR 0x0A \<notin> set line2" "CHR 0x0D \<notin> set line2"
  "CHR 0x0A \<notin> set line3" "CHR 0x0D \<notin> set line3"
  by (simp_all add: line1_def line2_def line3_def)

lemma py_get_obj: "py_get (JObj kvs) k d = Inr (dict_get kvs k d)"
  by (simp add: dict_get_def)

lemma scenario_loads_lines:
  "scenario_loads line1 = Inr (assistant_obj [text_block ''Hi''])"
  "scenario_loads line2 = Inr (assistant_obj [text_block '' there''])"
  "scenario_loads line3 = Inr (result_obj 0.01 120)"
  using lines_distinct by (simp_all add: scenario_loads_def)


section \<open>Batch mode and the exit code\<close>

text \<open>
  \<open>ClaudeWrapper._execute\<close> never reads \<open>proc.returncode\<close>: whenever the standard output
  decodes, it builds a \<open>Result\<close>, whatever the exit code. \<open>ClaudeAgent._run_once\<close> raises
  \<open>RuntimeError\<close> as soon as the process it launched exits with a code other than 0.
\<close>

lemma wrapper_ignores_exit_code:
  assumes "cli (length (cw_launched st))
             ([''claude'', ''-p'', ''--output-format'', ''json'', ''--permission-mode'',
               cw_permission_mode st]
              @ (if truthy (cw_session_id st) then [''--resume'', the (cw_session_id st)] else [])
              @ (if truthy (cw_allowed_tools st)
                 then [''--allowedTools'', join '','' (the (cw_allowed_tools st))] else [])
              @ [prompt0]) = Exited rc out err"
      and "loads out = Inr data"
  shows "fst (cw_execute cli loads prompt0 st) =
           Inr \<lparr>r_text = get_or (j_result data) [],
                r_cost_usd = get_or (j_total_cost_usd data) 0,
                r_duration_ms = get_or (j_duration_ms data) 0,
                r_session_id = get_or (j_session_id data) [],
                r_is_error = get_or (j_is_error data) False\<rparr>"
  using assms by (simp add: cw_execute_def Let_def)

lemma agent_raises_on_nonzero_exit:
  assumes "ca_build_command d cli loads prompt0 False st = (Inr cmd, st1)"
      and "cli (length (ca_launched st1)) cmd = Exited rc out err" and "rc \<noteq> 0"
  shows "fst (ca_run_once (Suc d) cli loads prompt0 st)
           = Inl (RuntimeError (''Claude CLI failed: '' @ err))"
  using assms by (simp add: Let_def)


text \<open>
  C1. The claim: in batch mode a subprocess that exits with a non-zero code makes the call
  raise, and never yields a \<open>Result\<close>. It holds of \<open>ClaudeAgent._run_once\<close> and fails
  of \<open>ClaudeWrapper.run\<close>: with a cached identifier, a process that exits with code 1 and
  prints the object \<open>{"result": "partial"}\<close> gives the caller an ordinary \<open>Result\<close> with
  text \<open>partial\<close> and error flag \<open>False\<close>.
\<close>

theorem wrapper_returns_on_nonzero_exit:
  "fst (cw_run exit_1_cli (loads_batch_to partial_json) ''hello'' cw_ready) =
     Inr \<lparr>r_text = ''partial'', r_cost_usd = 0, r_duration_ms = 0, r_session_id = [],
          r_is_error = False\<rparr>"
  by (simp add: cw_run_def cw_session_id_prop_def cw_execute_def cw_ready_def truthy_def
      exit_1_cli_def loads_batch_to_def partial_json_def get_or_def Let_def)


section \<open>Resetting the session\<close>











section \<open>The stream decoders\<close>

text \<open>
  Both decoders catch \<open>json.JSONDecodeError\<close> and nothing else: any other exception that
  \<open>json.loads\<close> raises on a line leaves \<open>parse_line\<close>, with the parser unchanged.
\<close>

lemma other_exception_leaves_decoders:
  assumes "strip line \<noteq> []" and "loads (strip line) = Inl e"
      and "\<And>msg. e \<noteq> JSONDecodeError msg"
  shows "parse_line loads p line = (Inl e, p)"
    and "cx_parse_line loads str_of q line = (Inl e, q)"
  using assms by (cases e; simp add: parse_line_def cx_parse_line_def)+

text \<open>
  C3, as amended. For every line that is not blank and on which \<open>json.loads\<close> raises
  \<open>JSONDecodeError\<close>, neither decoder raises: \<open>parse_line\<close> of the claude variant returns
  an event of kind \<open>ERROR\<close> whose data is the text \<open>JSON parse error:\<close> followed by the
  message, and \<open>parse_line\<close> of the codex variant returns \<open>None\<close>. Both leave the parser
  unchanged.
\<close>

theorem malformed_line_decoded:
  assumes "strip line \<noteq> []" and "loads (strip line) = Inl (JSONDecodeError msg)"
  shows "parse_line loads p line =
           (Inr (Some \<lparr>ev_type = ERROR, ev_data = JStr (''JSON parse error: '' @ msg),
                       ev_raw = JObj []\<rparr>), p)
         \<and> cx_parse_line loads str_of q line = (Inr None, q)"
  using assms by (simp add: parse_line_def cx_parse_line_def)

text \<open>The amended statement of C3 at the line \<open>{oops\<close>.\<close>

theorem malformed_line_decoded_witness:
  "strip ''{oops'' \<noteq> []
   \<and> (loads_rejecting ''Expecting value'' :: real loads) (strip ''{oops'')
       = Inl (JSONDecodeError ''Expecting value'')
   \<and> parse_line (loads_rejecting ''Expecting value'') (new_StreamParser :: real StreamParser)
         ''{oops'' =
       (Inr (Some \<lparr>ev_type = ERROR, ev_data = JStr ''JSON parse error: Expecting value'',
                   ev_raw = JObj []\<rparr>), new_StreamParser)
   \<and> cx_parse_line (loads_rejecting ''Expecting value'') plain_str
         (new_CodexParser :: real CodexParser) ''{oops'' =
       (Inr None, new_CodexParser)"
proof -
  have s: "strip ''{oops'' \<noteq> []" by (simp add: strip_def py_isspace_def)
  have l: "(loads_rejecting ''Expecting value'' :: real loads) (strip ''{oops'')
             = Inl (JSONDecodeError ''Expecting value'')"
    by (simp add: loads_rejecting_def)
  show ?thesis
    using s l malformed_line_decoded
      [where line = "''{oops''" and loads = "loads_rejecting ''Expecting value'' :: real loads"
         and msg = "''Expecting value''" and p = new_StreamParser and str_of = plain_str
         and q = new_CodexParser]
    by simp
qed

lemma strip_deep_line: "strip deep_line = deep_line" "deep_line \<noteq> []"
  by (simp_all add: deep_line_def strip_unchanged py_isspace_def)

text \<open>
  C3 as stated fails twice. On the malformed line \<open>{oops\<close> the \<open>parse_line\<close> of the codex
  variant returns \<open>None\<close>, not an event of kind error. And on a line of a thousand opening
  brackets, which is not valid JSON and on which \<open>json.loads\<close> raises \<open>RecursionError\<close>
  instead of \<open>JSONDecodeError\<close>, both decoders raise.
\<close>

theorem codex_malformed_line_counterexample:
  "strip ''{oops'' \<noteq> []
   \<and> (loads_rejecting ''Expecting value'' :: real loads) (strip ''{oops'')
       = Inl (JSONDecodeError ''Expecting value'')
   \<and> fst (cx_parse_line (loads_rejecting ''Expecting value'') plain_str
            (new_CodexParser :: real CodexParser) ''{oops'') = Inr None
   \<and> strip deep_line \<noteq> []
   \<and> fst (parse_line (loads_raising RecursionError) (new_StreamParser :: real StreamParser)
            deep_line) = Inl RecursionError
   \<and> fst (cx_parse_line (loads_raising RecursionError) plain_str
            (new_CodexParser :: real CodexParser) deep_line) = Inl RecursionError"
proof -
  have s: "strip ''{oops'' = ''{oops''" by (simp add: strip_def py_isspace_def)
  have c: "fst (cx_parse_line (loads_rejecting ''Expecting value'') plain_str
            (new_CodexParser :: real CodexParser) ''{oops'') = Inr None"
    by (simp add: cx_parse_line_def s loads_rejecting_def)
  have d: "fst (parse_line (loads_raising RecursionError)
            (new_StreamParser :: real StreamParser) deep_line) = Inl RecursionError"
    by (simp add: parse_line_def strip_deep_line loads_raising_def)
  have e: "fst (cx_parse_line (loads_raising RecursionError) plain_str
            (new_CodexParser :: real CodexParser) deep_line) = Inl RecursionError"
    by (simp add: cx_parse_line_def strip_deep_line loads_raising_def)
  show ?thesis using c d e by (simp add: s strip_deep_line loads_rejecting_def)
qed

subsection \<open>The loop over the content blocks\<close>

lemma blocks_text:
  "dict_get kvs ''type'' (JStr []) = JStr ''text'' \<Longrightarrow>
   parse_blocks p data (JObj kvs # rest) =
     (if py_truth (dict_get kvs ''text'' (JStr []))
      then (Inr (Some \<lparr>ev_type = TEXT, ev_data = dict_get kvs ''text'' (JStr []), ev_raw = data\<rparr>),
            fire (on_text p) (OnText (dict_get kvs ''text'' (JStr [])))
              (p\<lparr>stats := (stats p)\<lparr>text_chunks := text_chunks (stats p) + 1\<rparr>\<rparr>))
      else parse_blocks p data rest)"
  by (simp add: py_get_obj del: py_get.simps)

lemma blocks_tool_use:
  "dict_get kvs ''type'' (JStr []) = JStr ''tool_use'' \<Longrightarrow>
   parse_blocks p data (JObj kvs # rest) =
     (Inr (Some \<lparr>ev_type = TOOL_USE,
                 ev_data = JObj [(''name'', dict_get kvs ''name'' (JStr ''unknown'')),
                                 (''input'', dict_get kvs ''input'' (JObj []))],
                 ev_raw = data\<rparr>),
      fire (on_tool_use p)
        (OnToolUse (dict_get kvs ''name'' (JStr ''unknown'')) (dict_get kvs ''input'' (JObj [])))
        (p\<lparr>stats := (stats p)\<lparr>tool_uses := tool_uses (stats p) + 1\<rparr>\<rparr>))"
  by (simp add: py_get_obj del: py_get.simps)

lemma blocks_tool_result:
  "dict_get kvs ''type'' (JStr []) = JStr ''tool_result'' \<Longrightarrow>
   parse_blocks p data (JObj kvs # rest) =
     (Inr (Some \<lparr>ev_type = TOOL_RESULT,
                 ev_data = JObj [(''name'', dict_get kvs ''name'' (JStr ''unknown'')),
                                 (''result'', dict_get kvs ''content'' (JStr []))],
                 ev_raw = data\<rparr>),
      fire (on_tool_result p)
        (OnToolResult (dict_get kvs ''name'' (JStr ''unknown'')) (dict_get kvs ''content'' (JStr [])))
        p)"
  by (simp add: py_get_obj del: py_get.simps)

lemma blocks_thinking:
  "dict_get kvs ''type'' (JStr []) = JStr ''thinking'' \<Longrightarrow>
   parse_blocks p data (JObj kvs # rest) =
     (Inr (Some \<lparr>ev_type = THINKING, ev_data = dict_get kvs ''thinking'' (JStr []), ev_raw = data\<rparr>),
      fire (py_truth (dict_get kvs ''thinking'' (JStr [])) \<and> on_thinking p)
        (OnThinking (dict_get kvs ''thinking'' (JStr []))) p)"
  by (simp add: py_get_obj del: py_get.simps)

lemma blocks_other:
  "dict_get kvs ''type'' (JStr [])
     \<notin> {JStr ''text'', JStr ''tool_use'', JStr ''tool_result'', JStr ''thinking''} \<Longrightarrow>
   parse_blocks p data (JObj kvs # rest) = parse_blocks p data rest"
  by (simp add: py_get_obj del: py_get.simps)

lemma blocks_skip_one:
  assumes "block_skipped b"
  shows "parse_blocks p data (b # rest) = parse_blocks p data rest"
proof -
  from assms obtain kvs where b: "b = JObj kvs" by (cases b) simp_all
  show ?thesis
  proof (cases "dict_get kvs ''type'' (JStr []) = JStr ''text''")
    case True
    with assms b show ?thesis by (simp add: blocks_text del: parse_blocks.simps)
  next
    case False
    with assms b have "dict_get kvs ''type'' (JStr [])
        \<notin> {JStr ''text'', JStr ''tool_use'', JStr ''tool_result'', JStr ''thinking''}"
      by simp
    then show ?thesis unfolding b by (rule blocks_other)
  qed
qed

lemma blocks_skip_prefix:
  "\<forall>b \<in> set pre. block_skipped b \<Longrightarrow>
   parse_blocks p data (pre @ rest) = parse_blocks p data rest"
  by (induction pre) (simp_all add: blocks_skip_one del: parse_blocks.simps block_skipped.simps)

lemma blocks_return_one:
  assumes "block_returns b"
  shows "parse_blocks p data (b # rest) = parse_blocks p data [b]
       \<and> (\<exists>ev p'. parse_blocks p data [b] = (Inr (Some ev), p')
            \<and> text_chunks (stats p') + tool_uses (stats p')
                \<le> text_chunks (stats p) + tool_uses (stats p) + 1
            \<and> (\<exists>cs. calls p' = calls p @ cs \<and> length cs \<le> 1))"
proof -
  from assms obtain kvs where b: "b = JObj kvs" by (cases b) simp_all
  consider (is_text) "dict_get kvs ''type'' (JStr []) = JStr ''text''"
                     "py_truth (dict_get kvs ''text'' (JStr []))"
    | (is_tool_use) "dict_get kvs ''type'' (JStr []) = JStr ''tool_use''"
    | (is_tool_result) "dict_get kvs ''type'' (JStr []) = JStr ''tool_result''"
    | (is_thinking) "dict_get kvs ''type'' (JStr []) = JStr ''thinking''"
    using assms b by (auto split: if_splits)
  then show ?thesis
  proof cases
    case is_text
    then show ?thesis unfolding b by (simp add: blocks_text fire_def del: parse_blocks.simps)
  next
    case is_tool_use
    then show ?thesis unfolding b by (simp add: blocks_tool_use fire_def del: parse_blocks.simps)
  next
    case is_tool_result
    then show ?thesis unfolding b by (simp add: blocks_tool_result fire_def del: parse_blocks.simps)
  next
    case is_thinking
    then show ?thesis unfolding b by (simp add: blocks_thinking fire_def del: parse_blocks.simps)
  qed
qed

lemma parse_line_blocks:
  assumes "strip line \<noteq> []" and "loads (strip line) = Inr data"
      and "assistant_blocks data = Some blocks"
  shows "parse_line loads p line = parse_blocks p data blocks"
proof -
  from assms(3) obtain kvs m where d: "data = JObj kvs"
    and t: "dict_get kvs ''type'' (JStr []) = JStr ''assistant''"
    and m: "dict_get kvs ''message'' (JObj []) = JObj m"
    and c: "dict_get m ''content'' (JArr []) = JArr blocks"
    by (auto simp: assistant_blocks_def split: json.splits if_splits)
  show ?thesis
    using assms(1,2) t m c unfolding d
    by (simp add: parse_line_def py_get_obj del: py_get.simps)
qed


text \<open>
  C9, as amended. For a line whose type is \<open>assistant\<close>, the claude decoder passes over
  the blocks of unknown type and the \<open>text\<close> blocks whose text is empty, and returns on the
  first block that is a \<open>text\<close> block with non-empty text or a \<open>tool_use\<close>,
  \<open>tool_result\<close> or \<open>thinking\<close> block: the outcome is the one of that block alone, so the
  line yields one event, the blocks after it are dropped, the counters grow by at most one
  in total and at most one callback is called.
\<close>

theorem first_returning_block_wins:
  assumes "strip line \<noteq> []" and "loads (strip line) = Inr data"
      and "assistant_blocks data = Some (pre @ b # rest)"
      and "\<forall>x \<in> set pre. block_skipped x" and "block_returns b"
  shows "parse_line loads p line = parse_blocks p data [b]
       \<and> (\<exists>ev p'. parse_line loads p line = (Inr (Some ev), p')
            \<and> text_chunks (stats p') + tool_uses (stats p')
                \<le> text_chunks (stats p) + tool_uses (stats p) + 1
            \<and> (\<exists>cs. calls p' = calls p @ cs \<and> length cs \<le> 1))"
proof -
  have "parse_line loads p line = parse_blocks p data (pre @ b # rest)"
    using assms(1-3) by (rule parse_line_blocks)
  also have "\<dots> = parse_blocks p data (b # rest)"
    using assms(4) by (rule blocks_skip_prefix)
  finally have eq: "parse_line loads p line = parse_blocks p data (b # rest)" .
  from blocks_return_one [OF assms(5), of p data rest] show ?thesis
    unfolding eq by simp
qed


text \<open>
  The amended statement of C9 at a line with an empty text block, a \<open>tool_use\<close> block and
  a further text block.
\<close>

theorem first_returning_block_wins_witness:
  "strip ''x'' \<noteq> [] \<and> loads_to three_blocks (strip ''x'') = Inr three_blocks
   \<and> assistant_blocks three_blocks = Some ([text_block []] @ read_tool_block # [text_block ''later''])
   \<and> block_skipped (text_block [] :: real json)
   \<and> block_returns (read_tool_block :: real json)
   \<and> parse_line (loads_to three_blocks) (new_StreamParser :: real StreamParser) ''x''
       = parse_blocks new_StreamParser three_blocks [read_tool_block]"
proof -
  have 1: "strip ''x'' \<noteq> []" by (simp add: strip_def py_isspace_def)
  have 2: "loads_to three_blocks (strip ''x'') = Inr three_blocks" by (simp add: loads_to_def)
  have 3: "assistant_blocks three_blocks
             = Some ([text_block []] @ read_tool_block # [text_block ''later''])"
    by (simp add: assistant_blocks_def three_blocks_def assistant_obj_def dict_get_def)
  have 4: "\<forall>x \<in> set [text_block [] :: real json]. block_skipped x"
    by (simp add: text_block_def dict_get_def)
  have 5: "block_returns (read_tool_block :: real json)"
    by (simp add: read_tool_block_def dict_get_def)
  from first_returning_block_wins
       [where line = "''x''" and loads = "loads_to three_blocks" and data = three_blocks
          and pre = "[text_block []]" and b = read_tool_block and rest = "[text_block ''later'']"
          and p = new_StreamParser] 1 2 3 4 5
  show ?thesis by simp
qed


text \<open>
  C9 as stated fails: the first block of a known type may be a \<open>text\<close> block with empty
  text, on which the decoder does not return; the \<open>tool_use\<close> block after it is then
  surfaced and counted.
\<close>

theorem empty_text_block_counterexample:
  "assistant_blocks empty_text_then_tool = Some [text_block [], read_tool_block]
   \<and> parse_line (loads_to empty_text_then_tool) (new_StreamParser :: real StreamParser) ''x'' =
       (Inr (Some \<lparr>ev_type = TOOL_USE,
                   ev_data = JObj [(''name'', JStr ''Read''), (''input'', JObj [])],
                   ev_raw = empty_text_then_tool\<rparr>),
        new_StreamParser\<lparr>stats := new_StreamStats\<lparr>tool_uses := 1\<rparr>\<rparr>)"
  by (simp add: parse_line_def loads_to_def empty_text_then_tool_def assistant_obj_def
      assistant_blocks_def dict_get_def text_block_def read_tool_block_def strip_def
      py_isspace_def fire_def new_StreamParser_def new_StreamStats_def)


subsection \<open>The end-to-end scenario\<close>

lemma parse_line_text:
  fixes loads :: "'n::{zero,one,plus} loads"
  assumes "s \<noteq> []" "strip l = l" "l \<noteq> []" "loads l = Inr (assistant_obj [text_block s])"
  shows "parse_line loads p l =
     (Inr (Some \<lparr>ev_type = TEXT, ev_data = JStr s, ev_raw = assistant_obj [text_block s]\<rparr>),
      fire (on_text p) (OnText (JStr s))
        (p\<lparr>stats := (stats p)\<lparr>text_chunks := text_chunks (stats p) + 1\<rparr>\<rparr>))"
  using assms by (simp add: parse_line_def assistant_obj_def text_block_def)

lemma parse_line_result:
  fixes loads :: "'n::{zero,one,plus} loads"
  assumes "strip l = l" "l \<noteq> []" "loads l = Inr (result_obj c d)"
  shows "parse_line loads p l =
     (Inr (Some \<lparr>ev_type = RESULT, ev_data = result_obj c d, ev_raw = result_obj c d\<rparr>),
      p\<lparr>stats := (stats p)\<lparr>cost_usd := JNum c, duration_ms := JNum d, is_error := JBool False,
           total_tokens := JNum (0 + 0)\<rparr>\<rparr>)"
  using assms by (simp add: parse_line_def result_obj_def parse_result_def fire_def)


text \<open>
  C4. Whenever \<open>json.loads\<close> decodes the three lines of the scenario to the two
  \<open>assistant\<close> objects with the texts \<open>Hi\<close> and \<open> there\<close> and to the \<open>result\<close> object with
  cost \<open>c\<close> and duration \<open>d\<close> (the numbers written \<open>0.01\<close> and \<open>120\<close>), feeding them to a
  new claude parser ends without an exception, the accumulated text of the \<open>TEXT\<close> events
  is \<open>Hi there\<close>, and the statistics hold cost \<open>c\<close>, duration \<open>d\<close> and error flag
  \<open>False\<close>.
\<close>

theorem end_to_end_scenario:
  fixes loads :: "'n::{zero,one,plus} loads"
  assumes "loads line1 = Inr (assistant_obj [text_block ''Hi''])"
      and "loads line2 = Inr (assistant_obj [text_block '' there''])"
      and "loads line3 = Inr (result_obj c d)"
  shows "\<exists>events p. parse_stream loads new_StreamParser [line1, line2, line3] = (events, None, p)
           \<and> accumulated_text events = Inr ''Hi there''
           \<and> cost_usd (stats p) = JNum c \<and> duration_ms (stats p) = JNum d
           \<and> is_error (stats p) = JBool False"
proof -
  have 1: "parse_line loads p line1 =
      (Inr (Some \<lparr>ev_type = TEXT, ev_data = JStr ''Hi'',
                  ev_raw = assistant_obj [text_block ''Hi'']\<rparr>),
       fire (on_text p) (OnText (JStr ''Hi''))
         (p\<lparr>stats := (stats p)\<lparr>text_chunks := text_chunks (stats p) + 1\<rparr>\<rparr>))" for p
    using parse_line_text [of "''Hi''" line1 loads p] strip_lines(1) lines_nonempty(1) assms(1)
    by simp
  have 2: "parse_line loads p line2 =
      (Inr (Some \<lparr>ev_type = TEXT, ev_data = JStr '' there'',
                  ev_raw = assistant_obj [text_block '' there'']\<rparr>),
       fire (on_text p) (OnText (JStr '' there''))
         (p\<lparr>stats := (stats p)\<lparr>text_chunks := text_chunks (stats p) + 1\<rparr>\<rparr>))" for p
    using parse_line_text [of "'' there''" line2 loads p] strip_lines(2) lines_nonempty(2) assms(2)
    by simp
  have 3: "parse_line loads p line3 =
      (Inr (Some \<lparr>ev_type = RESULT, ev_data = result_obj c d, ev_raw = result_obj c d\<rparr>),
       p\<lparr>stats := (stats p)\<lparr>cost_usd := JNum c, duration_ms := JNum d,
            is_error := JBool False, total_tokens := JNum (0 + 0)\<rparr>\<rparr>)" for p
    using parse_line_result [of line3 loads c d p] strip_lines(3) lines_nonempty(3) assms(3)
    by simp
  show ?thesis
    by (simp add: 1 2 3 fire_def new_StreamParser_def new_StreamStats_def
        accumulated_text_def collected_text_def)
qed


text \<open>The scenario of C4 with a \<open>json.loads\<close> that knows the three lines.\<close>

theorem end_to_end_scenario_witness:
  "scenario_loads line1 = Inr (assistant_obj [text_block ''Hi''])
   \<and> scenario_loads line2 = Inr (assistant_obj [text_block '' there''])
   \<and> scenario_loads line3 = Inr (result_obj 0.01 120)
   \<and> (\<exists>events p. parse_stream scenario_loads new_StreamParser [line1, line2, line3]
                     = (events, None, p)
          \<and> accumulated_text events = Inr ''Hi there''
          \<and> cost_usd (stats p) = JNum 0.01 \<and> duration_ms (stats p) = JNum 120
          \<and> is_error (stats p) = JBool False)"
proof -
  have 1: "scenario_loads line1 = Inr (assistant_obj [text_block ''Hi''])"
    by (simp add: scenario_loads_def)
  have 2: "scenario_loads line2 = Inr (assistant_obj [text_block '' there''])"
    using lines_distinct by (simp add: scenario_loads_def)
  have 3: "scenario_loads line3 = Inr (result_obj 0.01 120)"
    using lines_distinct by (simp add: scenario_loads_def)
  from end_to_end_scenario [where loads = scenario_loads and c = "0.01" and d = "120"] 1 2 3
  show ?thesis by blast
qed


section \<open>Sessions\<close>

lemma sum_costs_snoc: "sum_costs (ts @ [t]) = sum_costs ts + t_cost_usd t"
  by (simp add: sum_costs_def)

lemma add_turn_keeps_inv: "session_inv s \<Longrightarrow> session_inv (add_turn s t)"
  by (simp add: session_inv_def add_turn_def sum_costs_snoc)

lemma add_turns_keep_inv:
  "session_inv s \<Longrightarrow> session_inv (foldl add_turn s ts) \<and> turns (foldl add_turn s ts) = turns s @ ts"
proof (induction ts arbitrary: s)
  case Nil
  then show ?case by simp
next
  case (Cons t ts)
  from Cons.prems have "session_inv (add_turn s t)" by (rule add_turn_keeps_inv)
  from Cons.IH [OF this] show ?case by (simp add: add_turn_def)
qed


text \<open>
  C6. A session built by the constructor satisfies the invariant that its total cost is
  the sum of the costs of its turns; \<open>add_turn\<close> maintains the invariant on every append;
  and after any finite sequence of \<open>add_turn\<close> calls on a session that satisfies it, the
  total cost is the sum of the costs of the turns in its list, which is the old list
  followed by the turns added. Addition is the one of the numbers, of which no law is used.
\<close>

theorem total_cost_is_sum_of_turns:
  "session_inv (new_Session sid name created parent)
   \<and> (session_inv s \<longrightarrow> session_inv (add_turn s t))
   \<and> (session_inv s \<longrightarrow>
        total_cost_usd (foldl add_turn s ts) = sum_costs (turns (foldl add_turn s ts))
        \<and> turns (foldl add_turn s ts) = turns s @ ts)"
proof -
  have "session_inv (new_Session sid name created parent)"
    by (simp add: session_inv_def new_Session_def sum_costs_def)
  moreover have "session_inv s \<longrightarrow> session_inv (add_turn s t)"
    by (simp add: add_turn_keeps_inv)
  moreover have "session_inv s \<longrightarrow>
        total_cost_usd (foldl add_turn s ts) = sum_costs (turns (foldl add_turn s ts))
        \<and> turns (foldl add_turn s ts) = turns s @ ts"
    using add_turns_keep_inv [of s ts] by (simp add: session_inv_def)
  ultimately show ?thesis by blast
qed


text \<open>The statement of C6 at a session with one turn, to which two turns are added.\<close>

theorem total_cost_is_sum_of_turns_witness:
  "session_inv session_a
   \<and> session_inv (add_turn session_a turn_two)
   \<and> total_cost_usd (foldl add_turn session_a [turn_two, turn_one])
       = sum_costs (turns (foldl add_turn session_a [turn_two, turn_one]))
   \<and> turns (foldl add_turn session_a [turn_two, turn_one]) = turns session_a @ [turn_two, turn_one]"
proof -
  have inv: "session_inv session_a"
    by (simp add: session_inv_def session_a_def add_turn_def new_Session_def sum_costs_def)
  from total_cost_is_sum_of_turns
         [where s = session_a and t = turn_two and ts = "[turn_two, turn_one]"] inv
  show ?thesis by blast
qed


lemma Turn_of_to_dict: "Turn_of (turn_to_dict t) = Inr t"
  by (simp add: Turn_of_def turn_to_dict_def Turn_fields_def dict_get_def)

lemma Turns_of_to_dict: "Turns_of (map turn_to_dict ts) = Inr ts"
  by (induction ts) (simp_all add: Turn_of_to_dict)

lemma from_dict_to_dict: "from_dict (to_dict s) = Inr s"
proof (cases "parent_session_id s")
  case None
  then show ?thesis
    by (simp add: from_dict_def to_dict_def dict_get_def Turns_of_to_dict)
next
  case (Some p)
  then show ?thesis
    by (simp add: from_dict_def to_dict_def dict_get_def Turns_of_to_dict)
qed


text \<open>
  C8. \<open>from_dict\<close> undoes \<open>to_dict\<close>; loading a session by its name right after saving it
  creates an object equal to the session saved; and saving that object again leaves the
  session files as the first save left them.
\<close>

theorem session_round_trip:
  "from_dict (to_dict s) = Inr s
   \<and> load_session pdiv (s_name s) (save_session pdiv s st)
       = (Inr (Some (length (sa_heap st))),
          (save_session pdiv s st)\<lparr>sa_heap := sa_heap st @ [s]\<rparr>)
   \<and> sa_files (save_session pdiv s
         ((save_session pdiv s st)\<lparr>sa_heap := sa_heap st @ [s]\<rparr>))
       = sa_files (save_session pdiv s st)"
  by (simp add: from_dict_to_dict load_session_def save_session_def session_path_def)


text \<open>The statement of C8 at a session with one turn.\<close>

theorem session_round_trip_witness:
  "from_dict (to_dict session_a) = Inr session_a
   \<and> load_session posix_div (s_name session_a) (save_session posix_div session_a sa_demo)
       = (Inr (Some (length (sa_heap sa_demo))),
          (save_session posix_div session_a sa_demo)
            \<lparr>sa_heap := sa_heap sa_demo @ [session_a]\<rparr>)
   \<and> sa_files (save_session posix_div session_a
         ((save_session posix_div session_a sa_demo)
            \<lparr>sa_heap := sa_heap sa_demo @ [session_a]\<rparr>))
       = sa_files (save_session posix_div session_a sa_demo)"
  by (rule session_round_trip)


text \<open>
  C7. When \<open>fork_session\<close> succeeds on a current session \<open>A\<close>, it returns a new session
  object whose \<open>parent_session_id\<close> is the identifier of \<open>A\<close>; the object \<open>A\<close>, like every
  session object that existed before the call, is unchanged, and no session file other
  than the one of the new name is written.
\<close>

theorem fork_keeps_parent:
  assumes cur: "sa_current st = Some a" and live: "a < length (sa_heap st)"
      and ok: "fork_session pdiv cli loads now new_name prompt0 st = (Inr b, st')"
  shows "b = length (sa_heap st) \<and> b < length (sa_heap st') \<and> b \<noteq> a
       \<and> parent_session_id (sa_heap st' ! b) = Some (s_session_id (sa_heap st ! a))
       \<and> sa_heap st' ! a = sa_heap st ! a
       \<and> (\<forall>i < length (sa_heap st). sa_heap st' ! i = sa_heap st ! i)
       \<and> (\<forall>path. path \<noteq> session_path pdiv st new_name \<longrightarrow> sa_files st' path = sa_files st path)"
proof -
  let ?parent = "sa_heap st ! a"
  let ?cmd = "[''claude'', ''-p'', ''--resume'', s_session_id ?parent, ''--fork-session'',
               ''--output-format'', ''json'', prompt0]"
  from ok cur obtain rc out err where run: "cli (length (sa_launched st)) ?cmd = Exited rc out err"
    by (cases "cli (length (sa_launched st)) ?cmd") (simp_all add: fork_session_def Let_def)
  from ok cur run have rc: "rc = 0"
    by (cases "rc = 0") (simp_all add: fork_session_def Let_def)
  from ok cur run rc obtain data where data: "loads out = Inr data"
    by (cases "loads out") (simp_all add: fork_session_def Let_def)
  from ok cur run rc data obtain sid where sid: "j_session_id data = Some sid"
    by (cases "j_session_id data") (simp_all add: fork_session_def Let_def)
  from ok cur run rc data sid
  have b: "b = length (sa_heap st)"
    and st': "sa_heap st' = sa_heap st @ [sa_heap st' ! b]"
    and par: "parent_session_id (sa_heap st' ! b) = Some (s_session_id ?parent)"
    and files: "\<And>path. path \<noteq> session_path pdiv st new_name \<Longrightarrow> sa_files st' path = sa_files st path"
    by (auto simp: fork_session_def Let_def save_session_def session_path_def new_Session_def
        add_turn_def)
  from st' have len: "length (sa_heap st') = Suc (length (sa_heap st))"
    by (metis length_append_singleton)
  have keep: "sa_heap st' ! i = sa_heap st ! i" if "i < length (sa_heap st)" for i
    using st' that by (metis nth_append)
  from b live len par keep files show ?thesis by auto
qed


text \<open>The statement of C7 at an agent whose current session is \<open>A\<close>, forked into \<open>B\<close>.\<close>

theorem fork_keeps_parent_witness:
  "sa_current sa_demo = Some 0 \<and> 0 < length (sa_heap sa_demo)
   \<and> fst (fork_session posix_div exit_0_cli (loads_batch_to fork_json) demo_now ''B'' ''try it'' sa_demo) = Inr 1
   \<and> parent_session_id
        (sa_heap (snd (fork_session posix_div exit_0_cli (loads_batch_to fork_json) demo_now ''B'' ''try it''
            sa_demo)) ! 1) = Some ''sess-A''
   \<and> sa_heap (snd (fork_session posix_div exit_0_cli (loads_batch_to fork_json) demo_now ''B'' ''try it''
            sa_demo)) ! 0 = session_a"
proof -
  let ?r = "fork_session posix_div exit_0_cli (loads_batch_to fork_json) demo_now ''B'' ''try it'' sa_demo"
  have cur: "sa_current sa_demo = Some 0" and live: "0 < length (sa_heap sa_demo)"
    by (simp_all add: sa_demo_def)
  have f: "fst ?r = Inr 1"
    by (simp add: fork_session_def sa_demo_def exit_0_cli_def loads_batch_to_def fork_json_def
        Let_def)
  then have ok: "?r = (Inr (1::nat), snd ?r)" by (metis prod.collapse)
  have a: "sa_heap sa_demo ! 0 = session_a" "s_session_id session_a = ''sess-A''"
    by (simp_all add: sa_demo_def session_a_def add_turn_def new_Session_def)
  from fork_keeps_parent [OF cur live ok]
  have p: "parent_session_id (sa_heap (snd ?r) ! 1) = Some (s_session_id (sa_heap sa_demo ! 0))"
    and k: "sa_heap (snd ?r) ! 0 = sa_heap sa_demo ! 0"
    by blast+
  show ?thesis
    unfolding p k a using cur live f by simp
qed


section \<open>The service: one attempt and the retry loop\<close>

text \<open>
  A service with no cached identifier and no session file cannot build a command: the
  property \<open>session_id\<close>, \<open>_run_claude\<close> and \<open>_build_command\<close> call each other until the
  call frames run out, so every attempt raises \<open>RecursionError\<close> before any process is
  launched.
\<close>

lemma svc_without_session_recurses:
  "\<not> truthy (svc_session_id st) \<Longrightarrow> svc_session_file st = None \<Longrightarrow>
     svc_session_id_prop d cli bloads cfg st = (Inl RecursionError, st)
   \<and> svc_build_command d cli bloads cfg prompt0 stream st = (Inl RecursionError, st)
   \<and> svc_run_claude d cli bloads cfg prompt0 st = (Inl RecursionError, st)"
proof (induction d arbitrary: prompt0 stream)
  case 0
  then show ?case by simp
next
  case (Suc d)
  from Suc.IH [OF Suc.prems]
  have a: "svc_session_id_prop d cli bloads cfg st = (Inl RecursionError, st)"
    and b: "\<And>pr s. svc_build_command d cli bloads cfg pr s st = (Inl RecursionError, st)"
    and c: "\<And>pr. svc_run_claude d cli bloads cfg pr st = (Inl RecursionError, st)"
    by blast+
  from Suc.prems show ?case by (simp add: a b c)
qed

lemma svc_cached_fields:
  "svc_sid (svc_cached st) = svc_sid st"
  "svc_slept (svc_cached st) = svc_slept st"
  "svc_launched (svc_cached st) = svc_launched st"
  "svc_mcp_exists (svc_cached st) = svc_mcp_exists st"
  "svc_session_file (svc_cached st) = svc_session_file st"
  "svc_outputs (svc_cached st) = svc_outputs st"
  "svc_results (svc_cached st) = svc_results st"
  by (auto simp: svc_cached_def svc_sid_def truthy_def split: option.splits)


text \<open>
  With a cached identifier or a session file, and two call frames left, \<open>_build_command\<close>
  returns the command of that identifier and leaves the identifier cached.
\<close>

lemma svc_build_command_has_session:
  assumes "has_session st" and "2 \<le> d"
  shows "svc_build_command d cli bloads cfg prompt0 stream st
         = (Inr (svc_command cfg (svc_sid st) (svc_mcp_exists st) stream prompt0), svc_cached st)"
proof -
  from assms(2) obtain d' where d: "d = Suc (Suc d')"
    by (metis Suc_le_D numeral_2_eq_2 Suc_le_mono)
  show ?thesis
  proof (cases "truthy (svc_session_id st)")
    case True
    with d show ?thesis by (simp add: svc_command_def svc_sid_def svc_cached_def)
  next
    case False
    with assms(1) obtain content where "svc_session_file st = Some content"
      by (auto simp: has_session_def split: option.splits)
    with d False show ?thesis by (simp add: svc_command_def svc_sid_def svc_cached_def)
  qed
qed




















lemma run_task_loop_success:
  assumes "int attempt < c_max_retries cfg"
      and "svc_attempt d cli bloads loads cfg prompt0 task_id output_file on_output
             (Suc attempt)
             (if 0 < attempt then st\<lparr>svc_slept := svc_slept st @ [2 ^ attempt]\<rparr> else st)
           = (Inr r, st2)"
  shows "run_task_loop d cli bloads loads cfg prompt0 task_id output_file on_output attempt
           last_error st = (r, st2)"
proof (cases "0 < attempt")
  case True
  with assms
    run_task_loop.simps [of d cli bloads loads cfg prompt0 task_id output_file on_output
      attempt last_error st]
  show ?thesis by (simp add: Let_def)
next
  case False
  with assms
    run_task_loop.simps [of d cli bloads loads cfg prompt0 task_id output_file on_output
      attempt last_error st]
  show ?thesis by (simp add: Let_def)
qed



lemma split_lines_at_newline:
  "CHR 0x0A \<notin> set l \<Longrightarrow> CHR 0x0D \<notin> set l \<Longrightarrow>
   split_lines acc (l @ CHR 0x0A # rest) = (acc @ l) # split_lines [] rest"
  by (induction l arbitrary: acc) auto


lemma stdout_lines_one: "stdout_lines (line1 @ [CHR 0x0A]) = [line1]"
  using split_lines_at_newline [of line1 "[]" "[]"] lines_no_newline
  by (simp add: stdout_lines_def)

lemma read_lines_text:
  assumes "strip l = l" "l \<noteq> []" "loads l = Inr (assistant_obj [text_block s])"
  shows "read_lines loads on_output (l # rest) written text_output result_data outs
         = read_lines loads on_output rest (written @ [l @ [CHR 0x0A]]) (text_output @ [JStr s])
             result_data (if on_output then outs @ [JStr s] else outs)"
  using assms by (simp add: Let_def assistant_obj_def text_block_def)

lemma read_lines_one:
  "read_lines scenario_loads False [line1] [] [] (JObj []) outs
   = (None, [line1 @ [CHR 0x0A]], [JStr ''Hi''], JObj [], outs)"
  by (simp add: read_lines_text [where l = line1 and loads = scenario_loads and s = "''Hi''",
        OF strip_lines(1) lines_nonempty(1) scenario_loads_lines(1)]
      del: read_lines.simps(2))

lemma svc_attempt_launched:
  assumes "has_session st" and "2 \<le> d"
      and "cli (length (svc_launched st))
             (svc_command cfg (svc_sid st) (svc_mcp_exists st) True prompt0)
           = Exited rc out err"
      and "read_lines loads on_output (stdout_lines out) [] [] (JObj []) (svc_outputs st)
           = (None, written, text_output, result_data, outs)"
  shows "svc_attempt d cli bloads loads cfg prompt0 task_id output_file on_output attempt st
         = task_outcome rc err text_output result_data prompt0 task_id output_file attempt
             ((svc_cached st)\<lparr>svc_launched := svc_launched st
                    @ [svc_command cfg (svc_sid st) (svc_mcp_exists st) True prompt0],
                 svc_results := (svc_results st)(output_file \<mapsto> written),
                 svc_outputs := outs\<rparr>)"
  using assms(3,4)
  by (simp add: svc_attempt_def svc_build_command_has_session [OF assms(1,2)] Let_def
      svc_cached_fields)


text \<open>
  C2. The claim: a streaming run whose output ends without a \<open>result\<close> event reports an
  error. \<open>AgentService.run_task\<close> does not: when the process prints one \<open>assistant\<close> line,
  no \<open>result\<close> line, and exits with code 0, the task result has status \<open>SUCCESS\<close> after one
  attempt, with cost \<open>0\<close> and duration \<open>0\<close>, the defaults read from the empty
  \<open>result_data\<close>.
\<close>

theorem run_task_succeeds_without_result_event:
  "fst (run_task 1000 posix_div no_result_cli (loads_batch_to partial_json) scenario_loads
          demo_cfg 0 ''Say hi'' (Some ''t1'') False svc_ready)
   = \<lparr>tr_task_id = ''t1'', tr_prompt = ''Say hi'', tr_status = SUCCESS, tr_output = ''Hi'',
      tr_cost_usd = JNum 0, tr_duration_ms = JNum 0, tr_attempts = 1, tr_error = None,
      tr_output_file = Some ''/data/results/t1.jsonl''\<rparr>"
proof -
  let ?f = "''/data/results/t1.jsonl''"
  have t: "has_session svc_ready" by (simp add: svc_ready_def has_session_def)
  have c: "no_result_cli (length (svc_launched svc_ready))
             (svc_command demo_cfg (svc_sid svc_ready) (svc_mcp_exists svc_ready)
                True ''Say hi'') = Exited 0 (line1 @ [CHR 0x0A]) []"
    by (simp add: no_result_cli_def)
  have r: "read_lines scenario_loads False (stdout_lines (line1 @ [CHR 0x0A])) [] [] (JObj [])
             (svc_outputs svc_ready)
           = (None, [line1 @ [CHR 0x0A]], [JStr ''Hi''], JObj [], svc_outputs svc_ready)"
    by (simp only: stdout_lines_one read_lines_one)
  have ev: "svc_attempt 1000 no_result_cli (loads_batch_to partial_json) scenario_loads
              demo_cfg ''Say hi'' ''t1'' ?f False 1 svc_ready
            = task_outcome 0 [] [JStr ''Hi''] (JObj []) ''Say hi'' ''t1'' ?f 1
                ((svc_cached svc_ready)\<lparr>svc_launched := svc_launched svc_ready
                     @ [svc_command demo_cfg (svc_sid svc_ready)
                          (svc_mcp_exists svc_ready) True ''Say hi''],
                   svc_results := (svc_results svc_ready)(?f \<mapsto> [line1 @ [CHR 0x0A]]),
                   svc_outputs := svc_outputs svc_ready\<rparr>)"
    by (rule svc_attempt_launched [where out = "line1 @ [CHR 0x0A]"]) (simp_all add: t c r)
  have a: "fst (svc_attempt 1000 no_result_cli (loads_batch_to partial_json) scenario_loads
                  demo_cfg ''Say hi'' ''t1'' ?f False 1 svc_ready)
           = Inr \<lparr>tr_task_id = ''t1'', tr_prompt = ''Say hi'', tr_status = SUCCESS,
                  tr_output = ''Hi'', tr_cost_usd = JNum 0, tr_duration_ms = JNum 0,
                  tr_attempts = 1, tr_error = None, tr_output_file = Some ?f\<rparr>"
    unfolding ev by (simp add: task_outcome_def svc_ready_def svc_cached_def Let_def)
  then obtain st2 where a': "svc_attempt 1000 no_result_cli (loads_batch_to partial_json)
        scenario_loads demo_cfg ''Say hi'' ''t1'' ?f False (Suc 0) svc_ready
      = (Inr \<lparr>tr_task_id = ''t1'', tr_prompt = ''Say hi'', tr_status = SUCCESS,
                  tr_output = ''Hi'', tr_cost_usd = JNum 0, tr_duration_ms = JNum 0,
                  tr_attempts = 1, tr_error = None, tr_output_file = Some ?f\<rparr>, st2)"
    by (metis One_nat_def prod.collapse)
  have m: "int 0 < c_max_retries demo_cfg" by (simp add: demo_cfg_def)
  have "run_task_loop 1000 no_result_cli (loads_batch_to partial_json) scenario_loads demo_cfg
          ''Say hi'' ''t1'' ?f False 0 None svc_ready
        = (\<lparr>tr_task_id = ''t1'', tr_prompt = ''Say hi'', tr_status = SUCCESS,
                  tr_output = ''Hi'', tr_cost_usd = JNum 0, tr_duration_ms = JNum 0,
                  tr_attempts = 1, tr_error = None, tr_output_file = Some ?f\<rparr>, st2)"
    using run_task_loop_success [OF m, where st = svc_ready] a' by simp
  then show ?thesis
    by (simp add: run_task_def task_id_or_def output_file_of_def truthy_def demo_cfg_def
        posix_div_def)
qed





end
